theory Spec2Isabelle
  imports Complex_Main "HOL-Library.AList"
begin

section \<open>Values, errors and tables\<close>

text \<open>
  The notebook \<^verbatim>\<open>generate_PGdata_example_notebook.ipynb\<close> drives pandas tables
  through a fixed sequence of cells. A table cell is a missing value (\<^verbatim>\<open>NaN\<close>),
  a number or a string. A number stands for the finite value it denotes
  (\<^verbatim>\<open>2025\<close> and \<^verbatim>\<open>2025.0\<close> are the same cell, as they are for \<^verbatim>\<open>==\<close>
  in Python); the characters of a string are the code points below 256.
\<close>

datatype cell = NaN | Num rat | Str string

text \<open>
  The exceptions of Python and pandas that the cells can meet, and
  \<open>ServiceError\<close> for whatever else an external service raises.
\<close>

datatype error =
    KeyError | IndexError | TypeError | ValueError | AttributeError
  | FileNotFoundError | EmptyDataError | ServiceError string

text \<open>
  A row maps column labels to cells, in column order. A table has its column
  labels, its index labels (one per row) and its rows.
\<close>

type_synonym row = "(string \<times> cell) list"

record table =
  columns :: "string list"
  index :: "int list"
  rows :: "row list"

definition wf_table :: "table \<Rightarrow> bool" where
  "wf_table t \<longleftrightarrow>
     distinct (columns t) \<and> length (index t) = length (rows t) \<and>
     list_all (\<lambda>r. map fst r = columns t) (rows t)"

text \<open>\<^verbatim>\<open>pd.DataFrame()\<close>\<close>

definition DataFrame :: table where
  "DataFrame = \<lparr>columns = [], index = [], rows = []\<rparr>"

text \<open>Sequencing of steps that may raise: the first error ends the evaluation.\<close>

definition bindE :: "error + 'a \<Rightarrow> ('a \<Rightarrow> error + 'b) \<Rightarrow> error + 'b" where
  "bindE m f = (case m of Inl e \<Rightarrow> Inl e | Inr x \<Rightarrow> f x)"

fun traverse :: "('a \<Rightarrow> error + 'b) \<Rightarrow> 'a list \<Rightarrow> error + 'b list" where
  "traverse f [] = Inr []"
| "traverse f (x # xs) =
     bindE (f x) (\<lambda>y. bindE (traverse f xs) (\<lambda>ys. Inr (y # ys)))"

subsection \<open>The pandas operations the notebook uses\<close>

text \<open>The value of a row at a label; a label the row lacks reads as missing.\<close>

definition cell_of :: "row \<Rightarrow> string \<Rightarrow> cell" where
  "cell_of r c = (case map_of r c of Some v \<Rightarrow> v | None \<Rightarrow> NaN)"

definition reindex :: "string list \<Rightarrow> row \<Rightarrow> row" where
  "reindex cs r = map (\<lambda>c. (c, cell_of r c)) cs"

text \<open>
  \<^verbatim>\<open>pd.concat([a, b])\<close>: the columns of \<open>a\<close>, then those only \<open>b\<close> has; the rows of
  \<open>a\<close>, then those of \<open>b\<close>, each keeping its index label and reading as missing in
  the columns its table lacked.
\<close>

definition pd_concat :: "table \<Rightarrow> table \<Rightarrow> table" where
  "pd_concat a b =
     (let cs = columns a @ filter (\<lambda>c. c \<notin> set (columns a)) (columns b)
      in \<lparr>columns = cs, index = index a @ index b,
          rows = map (reindex cs) (rows a) @ map (reindex cs) (rows b)\<rparr>)"

text \<open>\<^verbatim>\<open>t[cs]\<close> for a list of labels.\<close>

definition select_columns :: "table \<Rightarrow> string list \<Rightarrow> error + table" where
  "select_columns t cs =
     (if list_all (\<lambda>c. c \<in> set (columns t)) cs
      then Inr \<lparr>columns = cs, index = index t, rows = map (reindex cs) (rows t)\<rparr>
      else Inl KeyError)"

text \<open>\<^verbatim>\<open>t.loc[:, c]\<close> and \<^verbatim>\<open>t.c\<close> read a column.\<close>

definition loc_get :: "table \<Rightarrow> string \<Rightarrow> error + cell list" where
  "loc_get t c =
     (if c \<in> set (columns t) then Inr (map (\<lambda>r. cell_of r c) (rows t)) else Inl KeyError)"

definition getattr :: "table \<Rightarrow> string \<Rightarrow> error + cell list" where
  "getattr t c =
     (if c \<in> set (columns t) then Inr (map (\<lambda>r. cell_of r c) (rows t))
      else Inl AttributeError)"

definition add_label :: "string \<Rightarrow> string list \<Rightarrow> string list" where
  "add_label c cs = (if c \<in> set cs then cs else cs @ [c])"

text \<open>
  \<^verbatim>\<open>t.loc[:, c] = v\<close> for a scalar \<open>v\<close>. pandas refuses to add a new column from a
  scalar to a table that has no rows.
\<close>

definition loc_set_scalar :: "table \<Rightarrow> string \<Rightarrow> cell \<Rightarrow> error + table" where
  "loc_set_scalar t c v =
     (if c \<notin> set (columns t) \<and> rows t = [] then Inl ValueError
      else Inr (t\<lparr>columns := add_label c (columns t),
                  rows := map (AList.update c v) (rows t)\<rparr>))"

text \<open>\<^verbatim>\<open>t.loc[:, c] = s\<close> for a series \<open>s\<close> computed from the columns of \<open>t\<close>.\<close>

definition loc_set_series :: "table \<Rightarrow> string \<Rightarrow> cell list \<Rightarrow> table" where
  "loc_set_series t c s =
     t\<lparr>columns := add_label c (columns t),
       rows := map (\<lambda>(r, v). AList.update c v r) (zip (rows t) s)\<rparr>"

text \<open>\<^verbatim>\<open>t.loc[mask, c] = v\<close> for a boolean series over the rows of \<open>t\<close>.\<close>

definition loc_set_mask :: "table \<Rightarrow> bool list \<Rightarrow> string \<Rightarrow> cell \<Rightarrow> table" where
  "loc_set_mask t msk c v =
     t\<lparr>rows := map (\<lambda>(r, m). if m then AList.update c v r else r) (zip (rows t) msk)\<rparr>"

text \<open>
  \<^verbatim>\<open>np.isnan\<close> on a column: it raises on a column of objects. A table here keeps
  no type per column: a column is read as one of objects when it holds a
  string and as one of numbers otherwise. pandas keeps the type with the
  column, so that a column of objects without a string in it (an empty one, for
  instance) raises there and does not here.
\<close>

definition np_isnan :: "cell list \<Rightarrow> error + bool list" where
  "np_isnan s =
     (if list_ex (\<lambda>v. case v of Str _ \<Rightarrow> True | _ \<Rightarrow> False) s then Inl TypeError
      else Inr (map (\<lambda>v. v = NaN) s))"

text \<open>\<^verbatim>\<open>s == 0\<close>\<close>

definition eq_zero :: "cell list \<Rightarrow> bool list" where
  "eq_zero s = map (\<lambda>v. v = Num 0) s"

subsection \<open>Python's \<^verbatim>\<open>int\<close>, \<^verbatim>\<open>str\<close> and \<^verbatim>\<open>+\<close> on cells\<close>

definition digit_val :: "char \<Rightarrow> nat option" where
  "digit_val c = map_of (zip ''0123456789'' [0, 1, 2, 3, 4, 5, 6, 7, 8, 9]) c"

text \<open>Digits after the first one: an underscore may stand between two digits.\<close>

fun parse_digits :: "nat \<Rightarrow> string \<Rightarrow> nat option" where
  "parse_digits acc [] = Some acc"
| "parse_digits acc [c] =
     (case digit_val c of None \<Rightarrow> None | Some v \<Rightarrow> Some (10 * acc + v))"
| "parse_digits acc (c # d # cs) =
     (if c = CHR ''_''
      then (case digit_val d of None \<Rightarrow> None | Some v \<Rightarrow> parse_digits (10 * acc + v) cs)
      else (case digit_val c of None \<Rightarrow> None | Some v \<Rightarrow> parse_digits (10 * acc + v) (d # cs)))"

definition parse_nat :: "string \<Rightarrow> nat option" where
  "parse_nat s =
     (case s of [] \<Rightarrow> None
      | c # cs \<Rightarrow> (case digit_val c of None \<Rightarrow> None | Some v \<Rightarrow> parse_digits v cs))"

text \<open>
  The blanks that \<^verbatim>\<open>int\<close> skips around a literal: the space, the five characters
  0x09 to 0x0D (tab, line feed, vertical tab, form feed, carriage return), and
  the next-line and no-break-space characters 0x85 and 0xA0, which Python turns
  into spaces before it reads the literal. The separators 0x1C to 0x1F are not
  skipped: on the character 0x1C followed by \<^verbatim>\<open>7\<close>, \<^verbatim>\<open>int\<close> raises.
\<close>

definition is_space :: "char \<Rightarrow> bool" where
  "is_space c \<longleftrightarrow>
     c \<in> set [CHR '' '', CHR 0x09, CHR 0x0A, CHR 0x0B, CHR 0x0C, CHR 0x0D,
              CHR 0x85, CHR 0xA0]"

definition strip :: "string \<Rightarrow> string" where
  "strip s = rev (dropWhile is_space (rev (dropWhile is_space s)))"

text \<open>\<^verbatim>\<open>int(s)\<close> for a string: blanks around an optionally signed decimal literal.\<close>

definition int_of_str :: "string \<Rightarrow> int option" where
  "int_of_str s =
     (case strip s of [] \<Rightarrow> None
      | c # cs \<Rightarrow>
          if c = CHR ''-'' then map_option (\<lambda>n. - int n) (parse_nat cs)
          else if c = CHR ''+'' then map_option int (parse_nat cs)
          else map_option int (parse_nat (c # cs)))"

text \<open>
  \<^verbatim>\<open>int(v)\<close>: a number is truncated towards zero, a missing value and a string
  that is no integer literal raise \<^verbatim>\<open>ValueError\<close>.
\<close>

fun py_int :: "cell \<Rightarrow> error + int" where
  "py_int NaN = Inl ValueError"
| "py_int (Num q) = Inr (if q < 0 then - \<lfloor>- q\<rfloor> else \<lfloor>q\<rfloor>)"
| "py_int (Str s) = (case int_of_str s of None \<Rightarrow> Inl ValueError | Some i \<Rightarrow> Inr i)"

function digits :: "nat \<Rightarrow> string" where
  "digits n =
     (if n < 10 then [''0123456789'' ! n]
      else digits (n div 10) @ [''0123456789'' ! (n mod 10)])"
  by pat_completeness auto
termination
  by (relation "measure id") auto

declare digits.simps [simp del]

text \<open>\<^verbatim>\<open>str(i)\<close> for an integer.\<close>

definition py_str :: "int \<Rightarrow> string" where
  "py_str i = (if i < 0 then CHR ''-'' # digits (nat (- i)) else digits (nat i))"

text \<open>
  \<^verbatim>\<open>+\<close> between the cells of two columns of objects (a scalar operand is the
  same cell in every row): a row where either side is missing gives a missing
  value, two strings are joined, a string and a number raise \<^verbatim>\<open>TypeError\<close>.
  The columns of names are columns of objects, as pandas holds strings; a
  column of names that pandas holds as numbers (one with no name in it) raises
  \<^verbatim>\<open>TypeError\<close> at the first \<^verbatim>\<open>+\<close> of the key expression and gives missing keys
  here. The sum of two numbers is the sum of their values; the key expression
  never reaches it, since one side of each of its sums is a string or missing.
\<close>

fun obj_add :: "cell \<Rightarrow> cell \<Rightarrow> error + cell" where
  "obj_add NaN _ = Inr NaN"
| "obj_add _ NaN = Inr NaN"
| "obj_add (Str a) (Str b) = Inr (Str (a @ b))"
| "obj_add (Num a) (Num b) = Inr (Num (a + b))"
| "obj_add _ _ = Inl TypeError"

definition series_add :: "cell list \<Rightarrow> cell list \<Rightarrow> error + cell list" where
  "series_add xs ys = traverse (\<lambda>(x, y). obj_add x y) (zip xs ys)"

definition series_add_scalar :: "cell list \<Rightarrow> cell \<Rightarrow> error + cell list" where
  "series_add_scalar xs y = traverse (\<lambda>x. obj_add x y) xs"

section \<open>Post-processing (the last cell)\<close>

text \<open>
  The tables the notebook keeps between cells. \<open>transmission\<close> is \<open>None\<close> when
  no cell has assigned it, \<open>all_gens_multi_year\<close> until the last cell has. The
  other variables of the recomputing cell (\<^verbatim>\<open>load_curves\<close>, \<^verbatim>\<open>gen_variability\<close>,
  \<^verbatim>\<open>long_duration_storage\<close>, \<^verbatim>\<open>gc\<close>, \<^verbatim>\<open>model_regions_gdf\<close>) are read by no
  later cell and are values local to it here.
\<close>

record memory =
  reduced_resource_profile :: table
  reduced_load_profile :: table
  transmission :: "table option"
  all_gens :: table
  new_gen :: table
  all_gens_multi_year :: "table option"

text \<open>
  \<^verbatim>\<open>all_gens.loc[:, 'tech'] = all_gens.loc[:, 'Resource'] + '-' + all_gens.loc[:,'region']
      + '-' + all_gens.loc[:,'cluster'].map(int).map(str)\<close>
  The right-hand side is evaluated left to right before the column is set.
\<close>

definition tech :: "table \<Rightarrow> error + cell list" where
  "tech t =
     bindE (loc_get t ''Resource'') (\<lambda>resource.
     bindE (series_add_scalar resource (Str ''-'')) (\<lambda>s1.
     bindE (loc_get t ''region'') (\<lambda>region.
     bindE (series_add s1 region) (\<lambda>s2.
     bindE (series_add_scalar s2 (Str ''-'')) (\<lambda>s3.
     bindE (loc_get t ''cluster'') (\<lambda>cluster.
     bindE (traverse py_int cluster) (\<lambda>ints.
     series_add s3 (map (\<lambda>i. Str (py_str i)) ints))))))))"

definition set_tech :: "table \<Rightarrow> error + table" where
  "set_tech t = bindE (tech t) (\<lambda>s. Inr (loc_set_series t ''tech'' s))"

text \<open>
  \<^verbatim>\<open>all_gens_multi_year = pd.concat([all_gens, new_gen])
  all_gens_multi_year = all_gens_multi_year[all_gens.columns]\<close>
\<close>

definition concat_gens :: "table \<Rightarrow> table \<Rightarrow> error + table" where
  "concat_gens ag ng = select_columns (pd_concat ag ng) (columns ag)"

text \<open>
  \<^verbatim>\<open>t.loc[np.isnan(t.operating_year),'operating_year'] = all_periods[0]
  t.loc[t.operating_year==0,'operating_year'] = all_periods[0]\<close>
  In each assignment the right-hand side is evaluated first.
\<close>

definition first_period :: "int list \<Rightarrow> error + int" where
  "first_period all_periods = (case all_periods of [] \<Rightarrow> Inl IndexError | p # _ \<Rightarrow> Inr p)"

definition fill_nan :: "int list \<Rightarrow> table \<Rightarrow> error + table" where
  "fill_nan all_periods t =
     bindE (first_period all_periods) (\<lambda>p.
     bindE (getattr t ''operating_year'') (\<lambda>oy.
     bindE (np_isnan oy) (\<lambda>msk.
     Inr (loc_set_mask t msk ''operating_year'' (Num (of_int p))))))"

definition fill_zero :: "int list \<Rightarrow> table \<Rightarrow> error + table" where
  "fill_zero all_periods t =
     bindE (first_period all_periods) (\<lambda>p.
     bindE (getattr t ''operating_year'') (\<lambda>oy.
     Inr (loc_set_mask t (eq_zero oy) ''operating_year'' (Num (of_int p)))))"

definition multi_year :: "int list \<Rightarrow> table \<Rightarrow> table \<Rightarrow> error + table" where
  "multi_year all_periods ag ng =
     bindE (concat_gens ag ng) (\<lambda>t.
     bindE (fill_nan all_periods t) (fill_zero all_periods))"

text \<open>
  The whole cell, statement by statement. An error leaves the variables as the
  statements before it left them: the key column is set in \<^verbatim>\<open>all_gens\<close> itself,
  \<^verbatim>\<open>all_gens_multi_year\<close> is assigned the concatenation and then its restriction
  to the columns of \<^verbatim>\<open>all_gens\<close>, and each fill changes that table in place.
  When all the statements complete the table is \<open>multi_year\<close> of the two tables.
\<close>

definition post_processing :: "int list \<Rightarrow> memory \<Rightarrow> error option \<times> memory" where
  "post_processing all_periods m =
     (case set_tech (all_gens m) of
        Inl e \<Rightarrow> (Some e, m)
      | Inr ag \<Rightarrow>
          (let c = pd_concat ag (new_gen m);
               m1 = m\<lparr>all_gens := ag, all_gens_multi_year := Some c\<rparr>
           in case select_columns c (columns ag) of
                Inl e \<Rightarrow> (Some e, m1)
              | Inr t0 \<Rightarrow>
                  (case fill_nan all_periods t0 of
                     Inl e \<Rightarrow> (Some e, m1\<lparr>all_gens_multi_year := Some t0\<rparr>)
                   | Inr t1 \<Rightarrow>
                       (case fill_zero all_periods t1 of
                          Inl e \<Rightarrow> (Some e, m1\<lparr>all_gens_multi_year := Some t1\<rparr>)
                        | Inr t \<Rightarrow> (None, m1\<lparr>all_gens_multi_year := Some t\<rparr>)))))"

section \<open>Files, external services and the run\<close>

text \<open>
  \<^verbatim>\<open>file_prefix = str(settings_path).replace('.yml','_')\<close>. Python's
  \<^verbatim>\<open>str.replace\<close> rewrites every occurrence of the old text, scanning from the
  left; an empty old text matches before every character and at the end.
\<close>

definition starts_with :: "string \<Rightarrow> string \<Rightarrow> bool" where
  "starts_with s old \<longleftrightarrow> take (length old) s = old"

function py_replace :: "string \<Rightarrow> string \<Rightarrow> string \<Rightarrow> string" where
  "py_replace old new [] = (if old = [] then new else [])"
| "py_replace old new (c # cs) =
     (if old = [] then new @ c # py_replace old new cs
      else if starts_with (c # cs) old
        then new @ py_replace old new (drop (length old) (c # cs))
      else c # py_replace old new cs)"
  by pat_completeness auto
termination
  by (relation "measure (\<lambda>(old, new, s). length s)") auto

definition file_prefix_of :: "string \<Rightarrow> string" where
  "file_prefix_of settings_path = py_replace ''.yml'' ''_'' settings_path"

text \<open>\<^verbatim>\<open>old in s\<close>\<close>

fun contains :: "string \<Rightarrow> string \<Rightarrow> bool" where
  "contains [] old = (old = [])"
| "contains (c # cs) old = (starts_with (c # cs) old \<or> contains cs old)"

text \<open>
  The settings and the per-period, per-scenario settings are dictionaries
  loaded by the external library; the notebook itself reads one key of them.
\<close>

record settings =
  region_aggregations :: "(string \<times> string list) list"

definition lookup :: "('k \<times> 'v) list \<Rightarrow> 'k \<Rightarrow> error + 'v" where
  "lookup d k = (case map_of d k of None \<Rightarrow> Inl KeyError | Some v \<Rightarrow> Inr v)"

text \<open>\<^verbatim>\<open>scenario_settings[year][scenario]\<close>\<close>

definition scenario_cfg ::
    "(int \<times> (string \<times> 'c) list) list \<Rightarrow> int \<Rightarrow> string \<Rightarrow> error + 'c" where
  "scenario_cfg ss year scenario = bindE (lookup ss year) (\<lambda>d. lookup d scenario)"

text \<open>
  The run works on the files on disk and leaves a trace of the external calls
  and file accesses it makes, in order.
\<close>

datatype service =
    CreateNewGenerators | MakeFinalLoadCurves | CreateAllGenerators
  | AddMiscGenValues | MakeGeneratorVariability | ReduceTimeDomain
  | AggTransmissionConstraints | LoadIpmShapefile | TransmissionLineDistance
  | NetworkLineLoss | NetworkReinforcementCost | NetworkMaxReinforcement

datatype event = Call service | ToCsv string | ReadCsv string

record 'f world =
  files :: "string \<rightharpoonup> 'f"
  trace :: "event list"

type_synonym ('f, 'a) io = "'f world \<Rightarrow> (error + 'a) \<times> 'f world"

definition ret :: "'a \<Rightarrow> ('f, 'a) io" where
  "ret x w = (Inr x, w)"

definition lift :: "error + 'a \<Rightarrow> ('f, 'a) io" where
  "lift r w = (r, w)"

definition bnd :: "('f, 'a) io \<Rightarrow> ('a \<Rightarrow> ('f, 'b) io) \<Rightarrow> ('f, 'b) io" where
  "bnd m f w = (case m w of (Inl e, w') \<Rightarrow> (Inl e, w') | (Inr x, w') \<Rightarrow> f x w')"

text \<open>A call of an external service: it is recorded, and it returns or raises.\<close>

definition call :: "service \<Rightarrow> error + 'a \<Rightarrow> ('f, 'a) io" where
  "call s r w = (r, w\<lparr>trace := trace w @ [Call s]\<rparr>)"

text \<open>
  The external functions, with the database connection and everything else
  they depend on inside them; each returns or raises. \<open>'c\<close> is the type of a
  scenario's settings, \<open>'g\<close> of the region shapes, \<open>'f\<close> of the content of a
  file. \<open>create_new_generators cfg\<close> stands for
  \<^verbatim>\<open>GeneratorClusters(pudl_engine, pudl_out, cfg).create_new_generators()\<close>, and
  likewise \<open>create_all_generators\<close>. \<open>csv_text\<close> is the text pandas writes for
  the columns and rows of a table, \<open>csv_parse\<close> what it reads from a text (or
  the error it raises, as \<^verbatim>\<open>EmptyDataError\<close> on a text without columns).
\<close>

record ('s, 'c, 'g, 'f) services =
  create_new_generators :: "'c \<Rightarrow> error + table"
  create_all_generators :: "'c \<Rightarrow> error + table"
  make_final_load_curves :: "'c \<Rightarrow> error + table"
  add_misc_gen_values :: "table \<Rightarrow> 's \<Rightarrow> error + table"
  make_generator_variability :: "table \<Rightarrow> error + table"
  reduce_time_domain :: "table \<Rightarrow> table \<Rightarrow> 'c \<Rightarrow> error + (table \<times> table \<times> table)"
  agg_transmission_constraints :: "'s \<Rightarrow> error + table"
  load_ipm_shapefile :: "'s \<Rightarrow> error + 'g"
  transmission_line_distance :: "table \<Rightarrow> 'g \<Rightarrow> 's \<Rightarrow> error + table"
  network_line_loss :: "table \<Rightarrow> 's \<Rightarrow> error + table"
  network_reinforcement_cost :: "table \<Rightarrow> 's \<Rightarrow> error + table"
  network_max_reinforcement :: "table \<Rightarrow> 's \<Rightarrow> error + table"
  csv_text :: "string list \<times> row list \<Rightarrow> 'f"
  csv_parse :: "'f \<Rightarrow> error + (string list \<times> row list)"

text \<open>\<^verbatim>\<open>t.to_csv(path, index=False)\<close>: the index labels are not written.\<close>

definition to_csv ::
    "('s, 'c, 'g, 'f) services \<Rightarrow> table \<Rightarrow> string \<Rightarrow> ('f, unit) io" where
  "to_csv sv t path w =
     (Inr (), w\<lparr>files := (files w)(path \<mapsto> csv_text sv (columns t, rows t)),
                trace := trace w @ [ToCsv path]\<rparr>)"

text \<open>\<^verbatim>\<open>pd.read_csv(path)\<close>: the rows read are labelled 0, 1, 2, ...\<close>

definition read_csv :: "('s, 'c, 'g, 'f) services \<Rightarrow> string \<Rightarrow> ('f, table) io" where
  "read_csv sv path w =
     (case files w path of
        None \<Rightarrow> Inl FileNotFoundError
      | Some f \<Rightarrow>
          bindE (csv_parse sv f) (\<lambda>(cs, rs).
            Inr \<lparr>columns = cs, index = map int [0..<length rs], rows = rs\<rparr>),
      w\<lparr>trace := trace w @ [ReadCsv path]\<rparr>)"

subsection \<open>The recomputing cell\<close>

text \<open>
  \<^verbatim>\<open>new_gen = pd.DataFrame()
  for year in all_periods[1:]:
      gc = GeneratorClusters(pudl_engine, pudl_out, scenario_settings[year][scenario])
      new_gen_year = gc.create_new_generators()
      new_gen_year.loc[:,'operating_year'] = year
      new_gen = pd.concat([new_gen, new_gen_year])\<close>
\<close>

fun new_gen_loop ::
    "('s, 'c, 'g, 'f) services \<Rightarrow> (int \<times> (string \<times> 'c) list) list \<Rightarrow> string \<Rightarrow>
     int list \<Rightarrow> table \<Rightarrow> ('f, table) io" where
  "new_gen_loop sv ss scenario [] acc = ret acc"
| "new_gen_loop sv ss scenario (year # years) acc =
     bnd (lift (scenario_cfg ss year scenario)) (\<lambda>cfg.
     bnd (call CreateNewGenerators (create_new_generators sv cfg)) (\<lambda>new_gen_year.
     bnd (lift (loc_set_scalar new_gen_year ''operating_year'' (Num (of_int year)))) (\<lambda>tagged.
     new_gen_loop sv ss scenario years (pd_concat acc tagged))))"

text \<open>
  \<^verbatim>\<open>transmission = agg_transmission_constraints(pudl_engine=pudl_engine, settings=settings)
  model_regions_gdf = load_ipm_shapefile(settings)
  transmission = transmission_line_distance(trans_constraints_df=transmission,
      ipm_shapefile=model_regions_gdf, settings=settings)
  transmission = network_line_loss(transmission=transmission, settings=settings)
  transmission = network_reinforcement_cost(transmission=transmission, settings=settings)
  transmission = network_max_reinforcement(transmission=transmission, settings=settings)\<close>
\<close>

definition transmission_steps :: "('s, 'c, 'g, 'f) services \<Rightarrow> 's \<Rightarrow> ('f, table) io" where
  "transmission_steps sv st =
     bnd (call AggTransmissionConstraints (agg_transmission_constraints sv st)) (\<lambda>t0.
     bnd (call LoadIpmShapefile (load_ipm_shapefile sv st)) (\<lambda>model_regions_gdf.
     bnd (call TransmissionLineDistance
            (transmission_line_distance sv t0 model_regions_gdf st)) (\<lambda>t1.
     bnd (call NetworkLineLoss (network_line_loss sv t1 st)) (\<lambda>t2.
     bnd (call NetworkReinforcementCost (network_reinforcement_cost sv t2 st)) (\<lambda>t3.
     call NetworkMaxReinforcement (network_max_reinforcement sv t3 st))))))"

text \<open>
  The body of \<^verbatim>\<open>if run_new==1:\<close>. \<^verbatim>\<open>scenario_settings[start_year][scenario]\<close> is
  looked up where the cell first reads it; the later reads give the same value.
\<close>

definition run_new_branch ::
    "('s settings_scheme, 'c, 'g, 'f) services \<Rightarrow> 's settings_scheme \<Rightarrow>
     (int \<times> (string \<times> 'c) list) list \<Rightarrow> string \<Rightarrow> int list \<Rightarrow> int \<Rightarrow> string \<Rightarrow>
     ('f, memory) io" where
  "run_new_branch sv st ss scenario all_periods start_year prefix =
     bnd (new_gen_loop sv ss scenario (drop 1 all_periods) DataFrame) (\<lambda>new_gen0.
     bnd (lift (scenario_cfg ss start_year scenario)) (\<lambda>cfg.
     bnd (call MakeFinalLoadCurves (make_final_load_curves sv cfg)) (\<lambda>load_curves.
     bnd (call CreateAllGenerators (create_all_generators sv cfg)) (\<lambda>all_gens0.
     bnd (call AddMiscGenValues (add_misc_gen_values sv all_gens0 st)) (\<lambda>all_gens1.
     bnd (call AddMiscGenValues (add_misc_gen_values sv new_gen0 st)) (\<lambda>new_gen1.
     bnd (call MakeGeneratorVariability (make_generator_variability sv all_gens1))
       (\<lambda>gen_variability.
     bnd (call ReduceTimeDomain (reduce_time_domain sv gen_variability load_curves cfg))
       (\<lambda>(resource_profile, load_profile, long_duration_storage).
     bnd (if length (region_aggregations st) > 1
          then bnd (transmission_steps sv st) (\<lambda>t.
               bnd (to_csv sv t (prefix @ ''transmission.csv'')) (\<lambda>_. ret (Some t)))
          else ret None) (\<lambda>trans.
     bnd (to_csv sv load_profile (prefix @ ''reduced_load_profile.csv'')) (\<lambda>_.
     bnd (to_csv sv resource_profile (prefix @ ''reduced_resource_profile.csv'')) (\<lambda>_.
     bnd (to_csv sv all_gens1 (prefix @ ''all_gens.csv'')) (\<lambda>_.
     bnd (to_csv sv new_gen1 (prefix @ ''new_gen.csv'')) (\<lambda>_.
     ret \<lparr>reduced_resource_profile = resource_profile,
          reduced_load_profile = load_profile,
          transmission = trans,
          all_gens = all_gens1,
          new_gen = new_gen1,
          all_gens_multi_year = None\<rparr>)))))))))))))"

subsection \<open>The reloading cell\<close>

text \<open>The body of \<^verbatim>\<open>if run_new!=1:\<close>.\<close>

definition reload_branch ::
    "('s settings_scheme, 'c, 'g, 'f) services \<Rightarrow> 's settings_scheme \<Rightarrow> string \<Rightarrow>
     ('f, memory) io" where
  "reload_branch sv st prefix =
     bnd (read_csv sv (prefix @ ''reduced_load_profile.csv'')) (\<lambda>load_profile.
     bnd (read_csv sv (prefix @ ''reduced_resource_profile.csv'')) (\<lambda>resource_profile.
     bnd (read_csv sv (prefix @ ''all_gens.csv'')) (\<lambda>all_gens1.
     bnd (read_csv sv (prefix @ ''new_gen.csv'')) (\<lambda>new_gen1.
     bnd (if length (region_aggregations st) > 1
          then bnd (read_csv sv (prefix @ ''transmission.csv'')) (\<lambda>t. ret (Some t))
          else ret None) (\<lambda>trans.
     ret \<lparr>reduced_resource_profile = resource_profile,
          reduced_load_profile = load_profile,
          transmission = trans,
          all_gens = all_gens1,
          new_gen = new_gen1,
          all_gens_multi_year = None\<rparr>)))))"

subsection \<open>The notebook\<close>

text \<open>
  What the user sets in the notebook and what the settings loader hands over:
  the path of the settings file as a string, the settings, the scenario
  settings keyed by planning period and scenario name, the scenario and the
  cache flag \<^verbatim>\<open>run_new\<close>.
\<close>

record ('s, 'c) inputs =
  settings_path :: string
  settings_of :: 's
  scenario_settings :: "(int \<times> (string \<times> 'c) list) list"
  scenario :: string
  run_new :: int

text \<open>
  \<^verbatim>\<open>all_periods = list(scenario_settings.keys())
  start_year = all_periods[0]\<close>
  then one of the two branches. The last cell is \<open>post_processing\<close> on the
  tables they leave.
\<close>

definition all_periods_of :: "('s, 'c) inputs \<Rightarrow> int list" where
  "all_periods_of inp = map fst (scenario_settings inp)"

definition load_tables ::
    "('s settings_scheme, 'c, 'g, 'f) services \<Rightarrow> ('s settings_scheme, 'c) inputs \<Rightarrow>
     ('f, memory) io" where
  "load_tables sv inp =
     bnd (lift (first_period (all_periods_of inp))) (\<lambda>start_year.
       if run_new inp = 1
       then run_new_branch sv (settings_of inp) (scenario_settings inp) (scenario inp)
              (all_periods_of inp) start_year (file_prefix_of (settings_path inp))
       else reload_branch sv (settings_of inp) (file_prefix_of (settings_path inp)))"

definition notebook ::
    "('s settings_scheme, 'c, 'g, 'f) services \<Rightarrow> ('s settings_scheme, 'c) inputs \<Rightarrow>
     ('f, memory) io" where
  "notebook sv inp =
     bnd (load_tables sv inp) (\<lambda>m.
       lift (case post_processing (all_periods_of inp) m of
               (None, m') \<Rightarrow> Inr m'
             | (Some e, _) \<Rightarrow> Inl e))"

subsection \<open>The two fills, row by row\<close>

text \<open>
  What the two masked assignments of the last cell do to one row: the first
  rewrites a missing \<^verbatim>\<open>operating_year\<close>, the second a zero one.
\<close>

definition fill_nan_row :: "int \<Rightarrow> row \<Rightarrow> row" where
  "fill_nan_row p r =
     (if cell_of r ''operating_year'' = NaN
      then AList.update ''operating_year'' (Num (of_int p)) r else r)"

definition fill_zero_row :: "int \<Rightarrow> row \<Rightarrow> row" where
  "fill_zero_row p r =
     (if cell_of r ''operating_year'' = Num 0
      then AList.update ''operating_year'' (Num (of_int p)) r else r)"

definition fill_year :: "int \<Rightarrow> row \<Rightarrow> row" where
  "fill_year p r = fill_zero_row p (fill_nan_row p r)"

section \<open>Example inputs\<close>

text \<open>
  A start-year table with a missing and a zero \<^verbatim>\<open>operating_year\<close> and a missing
  region, and a new-generator table for 2030 with a column of its own.
\<close>

definition example_all_gens :: table where
  "example_all_gens =
     \<lparr>columns = [''Resource'', ''region'', ''cluster'', ''operating_year''],
      index = [0, 1, 2],
      rows = [[(''Resource'', Str ''a''), (''region'', Str ''b''), (''cluster'', Num 1),
               (''operating_year'', NaN)],
              [(''Resource'', Str ''c''), (''region'', Str ''d''), (''cluster'', Num 2),
               (''operating_year'', Num 0)],
              [(''Resource'', Str ''e''), (''region'', NaN), (''cluster'', Num 3),
               (''operating_year'', Num 2020)]]\<rparr>"

definition example_all_gens_tech :: table where
  "example_all_gens_tech =
     \<lparr>columns = [''Resource'', ''region'', ''cluster'', ''operating_year'', ''tech''],
      index = [0, 1, 2],
      rows = [[(''Resource'', Str ''a''), (''region'', Str ''b''), (''cluster'', Num 1),
               (''operating_year'', NaN), (''tech'', Str ''a-b-1'')],
              [(''Resource'', Str ''c''), (''region'', Str ''d''), (''cluster'', Num 2),
               (''operating_year'', Num 0), (''tech'', Str ''c-d-2'')],
              [(''Resource'', Str ''e''), (''region'', NaN), (''cluster'', Num 3),
               (''operating_year'', Num 2020), (''tech'', NaN)]]\<rparr>"

definition example_new_gen :: table where
  "example_new_gen =
     \<lparr>columns = [''Resource'', ''operating_year'', ''extra''],
      index = [0],
      rows = [[(''Resource'', Str ''n''), (''operating_year'', Num 2030), (''extra'', Num 7)]]\<rparr>"

definition example_multi_year :: table where
  "example_multi_year =
     \<lparr>columns = [''Resource'', ''region'', ''cluster'', ''operating_year'', ''tech''],
      index = [0, 1, 2, 0],
      rows = [[(''Resource'', Str ''a''), (''region'', Str ''b''), (''cluster'', Num 1),
               (''operating_year'', Num 2025), (''tech'', Str ''a-b-1'')],
              [(''Resource'', Str ''c''), (''region'', Str ''d''), (''cluster'', Num 2),
               (''operating_year'', Num 2025), (''tech'', Str ''c-d-2'')],
              [(''Resource'', Str ''e''), (''region'', NaN), (''cluster'', Num 3),
               (''operating_year'', Num 2020), (''tech'', NaN)],
              [(''Resource'', Str ''n''), (''region'', NaN), (''cluster'', NaN),
               (''operating_year'', Num 2030), (''tech'', NaN)]]\<rparr>"

definition example_memory :: memory where
  "example_memory =
     \<lparr>reduced_resource_profile = DataFrame, reduced_load_profile = DataFrame,
      transmission = None, all_gens = example_all_gens, new_gen = example_new_gen,
      all_gens_multi_year = None\<rparr>"

definition example_memory_done :: memory where
  "example_memory_done =
     \<lparr>reduced_resource_profile = DataFrame, reduced_load_profile = DataFrame,
      transmission = None, all_gens = example_all_gens_tech, new_gen = example_new_gen,
      all_gens_multi_year = Some example_multi_year\<rparr>"

text \<open>A start-year table whose second row has no cluster value.\<close>

definition example_bad_cluster :: table where
  "example_bad_cluster =
     \<lparr>columns = [''Resource'', ''region'', ''cluster'', ''operating_year''],
      index = [0, 1],
      rows = [[(''Resource'', Str ''a''), (''region'', Str ''b''), (''cluster'', Num 1),
               (''operating_year'', Num 2025)],
              [(''Resource'', Str ''c''), (''region'', Str ''d''), (''cluster'', NaN),
               (''operating_year'', Num 2025)]]\<rparr>"

definition example_bad_memory :: memory where
  "example_bad_memory =
     \<lparr>reduced_resource_profile = DataFrame, reduced_load_profile = DataFrame,
      transmission = None, all_gens = example_bad_cluster, new_gen = example_new_gen,
      all_gens_multi_year = None\<rparr>"

text \<open>
  A start-year table whose cluster values are strings, the one of the second
  row left open. With \<^verbatim>\<open>12\<close> between blanks there, an integer literal, the key
  column is the one of \<open>example_text_tech\<close>; the statements below also take
  \<^verbatim>\<open>1.5\<close> and \<^verbatim>\<open>7\<close> after the separator 0x1C, which are no integer literals.
\<close>

definition example_text_cluster :: "string \<Rightarrow> table" where
  "example_text_cluster s =
     \<lparr>columns = [''Resource'', ''region'', ''cluster'', ''operating_year''],
      index = [0, 1],
      rows = [[(''Resource'', Str ''a''), (''region'', Str ''b''), (''cluster'', Str ''7''),
               (''operating_year'', Num 2025)],
              [(''Resource'', Str ''c''), (''region'', Str ''d''), (''cluster'', Str s),
               (''operating_year'', Num 2025)]]\<rparr>"

definition example_text_memory :: "string \<Rightarrow> memory" where
  "example_text_memory s =
     \<lparr>reduced_resource_profile = DataFrame, reduced_load_profile = DataFrame,
      transmission = None, all_gens = example_text_cluster s, new_gen = example_new_gen,
      all_gens_multi_year = None\<rparr>"

definition example_text_tech :: table where
  "example_text_tech =
     \<lparr>columns = [''Resource'', ''region'', ''cluster'', ''operating_year'', ''tech''],
      index = [0, 1],
      rows = [[(''Resource'', Str ''a''), (''region'', Str ''b''), (''cluster'', Str ''7''),
               (''operating_year'', Num 2025), (''tech'', Str ''a-b-7'')],
              [(''Resource'', Str ''c''), (''region'', Str ''d''), (''cluster'', Str '' 12 ''),
               (''operating_year'', Num 2025), (''tech'', Str ''c-d-12'')]]\<rparr>"

section \<open>Notions used in the statements\<close>

text \<open>The events of the transmission steps and of writing their result, in the order of the cell.\<close>

definition transmission_events :: "string \<Rightarrow> event list" where
  "transmission_events prefix =
     [Call AggTransmissionConstraints, Call LoadIpmShapefile, Call TransmissionLineDistance,
      Call NetworkLineLoss, Call NetworkReinforcementCost, Call NetworkMaxReinforcement,
      ToCsv (prefix @ ''transmission.csv'')]"

text \<open>An event that writes a file.\<close>

definition is_write :: "event \<Rightarrow> bool" where
  "is_write e = (case e of ToCsv _ \<Rightarrow> True | _ \<Rightarrow> False)"

text \<open>
  The events of a recomputing cell that completes, for the number of planning
  periods after the first and for whether there is more than one region
  aggregation.
\<close>

definition fresh_events :: "nat \<Rightarrow> bool \<Rightarrow> string \<Rightarrow> event list" where
  "fresh_events later_periods with_transmission prefix =
     replicate later_periods (Call CreateNewGenerators) @
     [Call MakeFinalLoadCurves, Call CreateAllGenerators, Call AddMiscGenValues,
      Call AddMiscGenValues, Call MakeGeneratorVariability, Call ReduceTimeDomain] @
     (if with_transmission then transmission_events prefix else []) @
     [ToCsv (prefix @ ''reduced_load_profile.csv''),
      ToCsv (prefix @ ''reduced_resource_profile.csv''),
      ToCsv (prefix @ ''all_gens.csv''), ToCsv (prefix @ ''new_gen.csv'')]"

text \<open>The events of a reloading cell that completes.\<close>

definition reload_events :: "bool \<Rightarrow> string \<Rightarrow> event list" where
  "reload_events with_transmission prefix =
     [ReadCsv (prefix @ ''reduced_load_profile.csv''),
      ReadCsv (prefix @ ''reduced_resource_profile.csv''),
      ReadCsv (prefix @ ''all_gens.csv''), ReadCsv (prefix @ ''new_gen.csv'')] @
     (if with_transmission then [ReadCsv (prefix @ ''transmission.csv'')] else [])"

text \<open>Every event a step adds to the trace, whatever its outcome, satisfies \<open>P\<close>.\<close>

definition emits :: "(event \<Rightarrow> bool) \<Rightarrow> ('f, 'a) io \<Rightarrow> bool" where
  "emits P m \<longleftrightarrow> (\<forall>w. \<exists>evs. trace (snd (m w)) = trace w @ evs \<and> list_all P evs)"

text \<open>The files on disk after a recomputing cell that leaves the tables \<open>m\<close>.\<close>

definition files_written ::
    "('s, 'c, 'g, 'f) services \<Rightarrow> string \<Rightarrow> memory \<Rightarrow> (string \<rightharpoonup> 'f) \<Rightarrow> (string \<rightharpoonup> 'f)" where
  "files_written sv prefix m fs =
     (let csv = (\<lambda>t. csv_text sv (columns t, rows t));
          fs1 = (case transmission m of
                   None \<Rightarrow> fs
                 | Some t \<Rightarrow> fs(prefix @ ''transmission.csv'' \<mapsto> csv t))
      in fs1(prefix @ ''reduced_load_profile.csv'' \<mapsto> csv (reduced_load_profile m),
             prefix @ ''reduced_resource_profile.csv'' \<mapsto> csv (reduced_resource_profile m),
             prefix @ ''all_gens.csv'' \<mapsto> csv (all_gens m),
             prefix @ ''new_gen.csv'' \<mapsto> csv (new_gen m)))"

text \<open>A table with its rows labelled 0, 1, 2, ... anew.\<close>

definition reset_index :: "table \<Rightarrow> table" where
  "reset_index t = t\<lparr>index := map int [0..<length (rows t)]\<rparr>"

text \<open>The tables of \<open>m\<close>, each with its rows labelled anew.\<close>

definition reloaded :: "memory \<Rightarrow> memory" where
  "reloaded m =
     \<lparr>reduced_resource_profile = reset_index (reduced_resource_profile m),
      reduced_load_profile = reset_index (reduced_load_profile m),
      transmission = map_option reset_index (transmission m),
      all_gens = reset_index (all_gens m),
      new_gen = reset_index (new_gen m),
      all_gens_multi_year = None\<rparr>"

text \<open>The tables the recomputing cell writes.\<close>

definition written_tables :: "memory \<Rightarrow> table list" where
  "written_tables m =
     [reduced_load_profile m, reduced_resource_profile m, all_gens m, new_gen m] @
     (case transmission m of None \<Rightarrow> [] | Some t \<Rightarrow> [t])"

text \<open>pandas reads back from the text it writes for \<open>t\<close> the columns and rows of \<open>t\<close>.\<close>

definition csv_lossless :: "('s, 'c, 'g, 'f) services \<Rightarrow> table \<Rightarrow> bool" where
  "csv_lossless sv t \<longleftrightarrow>
     csv_parse sv (csv_text sv (columns t, rows t)) = Inr (columns t, rows t)"

section \<open>An example run\<close>

text \<open>
  A run over three planning periods and two region aggregations. Every call for
  new generators returns one wind cluster, the other services return small
  fixed tables, the transmission steps add one column each, and a file holds
  the columns and rows written to it.
\<close>

definition example_settings :: settings where
  "example_settings =
     \<lparr>region_aggregations = [(''NE'', [''NENG_CT'', ''NENGREST'']), (''MIDATL'', [''PJM_EMAC''])]\<rparr>"

definition example_settings_one :: settings where
  "example_settings_one = \<lparr>region_aggregations = [(''NE'', [''NENG_CT'', ''NENGREST''])]\<rparr>"

definition example_new_gen_year :: table where
  "example_new_gen_year =
     \<lparr>columns = [''Resource'', ''region'', ''cluster''], index = [0],
      rows = [[(''Resource'', Str ''wind''), (''region'', Str ''b''), (''cluster'', Num 1)]]\<rparr>"

definition example_load :: table where
  "example_load = \<lparr>columns = [''b''], index = [0, 1], rows = [[(''b'', Num 10)], [(''b'', Num 12)]]\<rparr>"

definition example_variability :: table where
  "example_variability =
     \<lparr>columns = [''a-b-1''], index = [0, 1], rows = [[(''a-b-1'', Num 1)], [(''a-b-1'', Num 0)]]\<rparr>"

definition example_lines :: table where
  "example_lines =
     \<lparr>columns = [''Network_Lines''], index = [0], rows = [[(''Network_Lines'', Num 1)]]\<rparr>"

definition example_services :: "(settings, int, unit, string list \<times> row list) services" where
  "example_services =
     \<lparr>create_new_generators = (\<lambda>cfg. Inr example_new_gen_year),
      create_all_generators = (\<lambda>cfg. Inr example_all_gens),
      make_final_load_curves = (\<lambda>cfg. Inr example_load),
      add_misc_gen_values = (\<lambda>t st. Inr t),
      make_generator_variability = (\<lambda>t. Inr example_variability),
      reduce_time_domain = (\<lambda>gv lc cfg. Inr (gv, lc, DataFrame)),
      agg_transmission_constraints = (\<lambda>st. Inr example_lines),
      load_ipm_shapefile = (\<lambda>st. Inr ()),
      transmission_line_distance = (\<lambda>t g st. loc_set_scalar t ''distance_mile'' (Num 100)),
      network_line_loss = (\<lambda>t st. loc_set_scalar t ''Line_Loss_Percentage'' (Num 0)),
      network_reinforcement_cost =
        (\<lambda>t st. loc_set_scalar t ''Line_Reinforcement_Cost_per_MW_yr'' (Num 5)),
      network_max_reinforcement =
        (\<lambda>t st. loc_set_scalar t ''Line_Max_Reinforcement_MW'' (Num 10)),
      csv_text = (\<lambda>x. x),
      csv_parse = (\<lambda>f. Inr f)\<rparr>"

definition example_inputs :: "(settings, int) inputs" where
  "example_inputs =
     \<lparr>settings_path = ''US_National/US_N_settings.yml'',
      settings_of = example_settings,
      scenario_settings = [(2025, [(''p6'', 2025)]), (2030, [(''p6'', 2030)]),
                           (2035, [(''p6'', 2035)])],
      scenario = ''p6'',
      run_new = 1\<rparr>"

definition example_world :: "(string list \<times> row list) world" where
  "example_world = \<lparr>files = Map.empty, trace = []\<rparr>"

definition example_inputs_one :: "(settings, int) inputs" where
  "example_inputs_one = example_inputs\<lparr>settings_of := example_settings_one\<rparr>"

definition example_transmission :: table where
  "example_transmission =
     \<lparr>columns = [''Network_Lines'', ''distance_mile'', ''Line_Loss_Percentage'',
                 ''Line_Reinforcement_Cost_per_MW_yr'', ''Line_Max_Reinforcement_MW''],
      index = [0],
      rows = [[(''Network_Lines'', Num 1), (''distance_mile'', Num 100),
               (''Line_Loss_Percentage'', Num 0),
               (''Line_Reinforcement_Cost_per_MW_yr'', Num 5),
               (''Line_Max_Reinforcement_MW'', Num 10)]]\<rparr>"


definition example_new_gen_later :: table where
  "example_new_gen_later =
     \<lparr>columns = [''Resource'', ''region'', ''cluster'', ''operating_year''], index = [0, 0],
      rows = [[(''Resource'', Str ''wind''), (''region'', Str ''b''), (''cluster'', Num 1),
               (''operating_year'', Num 2030)],
              [(''Resource'', Str ''wind''), (''region'', Str ''b''), (''cluster'', Num 1),
               (''operating_year'', Num 2035)]]\<rparr>"

definition example_fresh :: memory where
  "example_fresh =
     \<lparr>reduced_resource_profile = example_variability, reduced_load_profile = example_load,
      transmission = Some example_transmission, all_gens = example_all_gens,
      new_gen = example_new_gen_later, all_gens_multi_year = None\<rparr>"

definition example_reloaded :: memory where
  "example_reloaded =
     \<lparr>reduced_resource_profile = example_variability, reduced_load_profile = example_load,
      transmission = Some example_transmission, all_gens = example_all_gens,
      new_gen = example_new_gen_later\<lparr>index := [0, 1]\<rparr>, all_gens_multi_year = None\<rparr>"

definition example_disk :: "(string list \<times> row list) world" where
  "example_disk = snd (load_tables example_services example_inputs example_world)"

definition example_inputs_reuse :: "(settings, int) inputs" where
  "example_inputs_reuse = example_inputs\<lparr>run_new := 0\<rparr>"

section \<open>Basic facts about the operations\<close>

lemma bindE_Inl [simp]: "bindE (Inl e) f = Inl e"
  by (simp add: bindE_def)

lemma bindE_Inr [simp]: "bindE (Inr x) f = f x"
  by (simp add: bindE_def)

lemma bindE_eq_Inr: "bindE m f = Inr y \<longleftrightarrow> (\<exists>x. m = Inr x \<and> f x = Inr y)"
  by (cases m) simp_all

lemma traverse_eq_Inr:
  "traverse f xs = Inr ys \<longleftrightarrow> list_all2 (\<lambda>x y. f x = Inr y) xs ys"
proof (induction xs arbitrary: ys)
  case Nil
  show ?case by auto
next
  case (Cons x xs)
  show ?case
    by (cases ys) (auto simp: bindE_eq_Inr Cons.IH)
qed

lemma map_of_tabulate:
  "map_of (map (\<lambda>c. (c, f c)) cs) k = (if k \<in> set cs then Some (f k) else None)"
  by (induction cs) auto

lemma cell_of_reindex:
  "cell_of (reindex cs r) c = (if c \<in> set cs then cell_of r c else NaN)"
  by (simp add: cell_of_def reindex_def map_of_tabulate)

lemma reindex_reindex:
  "set cs' \<subseteq> set cs \<Longrightarrow> reindex cs' (reindex cs r) = reindex cs' r"
  by (auto simp: reindex_def[of cs'] cell_of_reindex)

lemma cell_of_update:
  "cell_of (AList.update k v r) c = (if c = k then v else cell_of r c)"
  by (simp add: cell_of_def update_conv')

lemma cell_of_absent: "c \<notin> set (map fst r) \<Longrightarrow> cell_of r c = NaN"
  using map_of_eq_None_iff[of r c] by (simp add: cell_of_def)

lemma concat_gens_eq:
  "concat_gens ag ng =
     Inr \<lparr>columns = columns ag, index = index ag @ index ng,
          rows = map (reindex (columns ag)) (rows ag) @ map (reindex (columns ag)) (rows ng)\<rparr>"
  by (simp add: concat_gens_def select_columns_def pd_concat_def Let_def list_all_iff
      reindex_reindex)

lemma map_zip_map: "map (\<lambda>(r, m). g r m) (zip rs (map h rs)) = map (\<lambda>r. g r (h r)) rs"
  by (induction rs) auto

lemma fill_nan_eq_Inr:
  assumes "fill_nan ps t = Inr u"
  shows "\<exists>p. first_period ps = Inr p \<and> ''operating_year'' \<in> set (columns t) \<and>
             u = t\<lparr>rows := map (fill_nan_row p) (rows t)\<rparr>"
  using assms unfolding fill_nan_row_def
  by (auto simp: fill_nan_def bindE_eq_Inr getattr_def np_isnan_def loc_set_mask_def
      map_zip_map split: if_splits)

lemma fill_zero_eq_Inr:
  assumes "fill_zero ps t = Inr u"
  shows "\<exists>p. first_period ps = Inr p \<and> u = t\<lparr>rows := map (fill_zero_row p) (rows t)\<rparr>"
  using assms unfolding fill_zero_row_def
  by (auto simp: fill_zero_def bindE_eq_Inr getattr_def eq_zero_def loc_set_mask_def
      map_zip_map split: if_splits)

lemma multi_year_eq_Inr:
  assumes "multi_year ps ag ng = Inr t"
  shows "\<exists>p. first_period ps = Inr p \<and> ''operating_year'' \<in> set (columns ag) \<and>
           t = \<lparr>columns = columns ag, index = index ag @ index ng,
                rows = map (\<lambda>r. fill_year p (reindex (columns ag) r)) (rows ag @ rows ng)\<rparr>"
proof -
  define t0 where "t0 = \<lparr>columns = columns ag, index = index ag @ index ng,
    rows = map (reindex (columns ag)) (rows ag) @ map (reindex (columns ag)) (rows ng)\<rparr>"
  have c: "concat_gens ag ng = Inr t0"
    by (simp add: t0_def concat_gens_eq)
  from assms c obtain u where u: "fill_nan ps t0 = Inr u" and t: "fill_zero ps u = Inr t"
    by (auto simp: multi_year_def bindE_eq_Inr)
  from fill_nan_eq_Inr[OF u] obtain p where p: "first_period ps = Inr p"
      and oy: "''operating_year'' \<in> set (columns t0)"
      and u_eq: "u = t0\<lparr>rows := map (fill_nan_row p) (rows t0)\<rparr>"
    by blast
  from fill_zero_eq_Inr[OF t] p have t_eq: "t = u\<lparr>rows := map (fill_zero_row p) (rows u)\<rparr>"
    by auto
  have "t = \<lparr>columns = columns ag, index = index ag @ index ng,
             rows = map (\<lambda>r. fill_year p (reindex (columns ag) r)) (rows ag @ rows ng)\<rparr>"
    unfolding t_eq u_eq by (simp add: t0_def fill_year_def comp_def)
  with p oy show ?thesis
    by (auto simp: t0_def)
qed

lemma cell_of_fill_year:
  "cell_of (fill_year p r) ''operating_year'' =
     (if cell_of r ''operating_year'' = NaN \<or> cell_of r ''operating_year'' = Num 0
      then Num (of_int p) else cell_of r ''operating_year'')"
  by (simp add: fill_year_def fill_nan_row_def fill_zero_row_def cell_of_update)

lemma cell_of_fill_year_other:
  "c \<noteq> ''operating_year'' \<Longrightarrow> cell_of (fill_year p r) c = cell_of r c"
  by (simp add: fill_year_def fill_nan_row_def fill_zero_row_def cell_of_update)

lemma post_processing_None:
  assumes "post_processing ps m = (None, m')"
  shows "\<exists>ag t. set_tech (all_gens m) = Inr ag \<and> multi_year ps ag (new_gen m) = Inr t \<and>
           m' = m\<lparr>all_gens := ag, all_gens_multi_year := Some t\<rparr>"
proof -
  from assms obtain ag t0 t1 t where
    ag: "set_tech (all_gens m) = Inr ag" and
    t0: "select_columns (pd_concat ag (new_gen m)) (columns ag) = Inr t0" and
    t1: "fill_nan ps t0 = Inr t1" and
    t: "fill_zero ps t1 = Inr t" and
    m': "m' = m\<lparr>all_gens := ag, all_gens_multi_year := Some t\<rparr>"
    by (auto simp: post_processing_def Let_def split: sum.splits)
  from t0 t1 t have "multi_year ps ag (new_gen m) = Inr t"
    by (simp add: multi_year_def concat_gens_def bindE_def)
  with ag m' show ?thesis
    by blast
qed

lemma post_processing_complete:
  assumes "set_tech (all_gens m) = Inr ag" and "multi_year ps ag (new_gen m) = Inr t"
  shows "post_processing ps m = (None, m\<lparr>all_gens := ag, all_gens_multi_year := Some t\<rparr>)"
  using assms
  by (auto simp: post_processing_def multi_year_def concat_gens_def bindE_def Let_def
      split: sum.splits)

lemma post_processing_set_tech_Inl:
  "set_tech (all_gens m) = Inl e \<Longrightarrow> post_processing ps m = (Some e, m)"
  by (simp add: post_processing_def)

lemma py_int_eq_Inl:
  "py_int c = Inl e \<longleftrightarrow>
     e = ValueError \<and> (c = NaN \<or> (\<exists>s. c = Str s \<and> int_of_str s = None))"
  by (cases c) (auto split: option.splits)

lemma set_tech_columns:
  "set_tech t = Inr t' \<Longrightarrow> columns t' = add_label ''tech'' (columns t)"
  by (auto simp: set_tech_def bindE_eq_Inr loc_set_series_def)

lemma loc_get_eq_Inr:
  "loc_get t c = Inr xs \<longleftrightarrow> c \<in> set (columns t) \<and> xs = map (\<lambda>r. cell_of r c) (rows t)"
  by (auto simp: loc_get_def)

lemma series_add_scalar_eq_Inr:
  "series_add_scalar xs y = Inr zs \<longleftrightarrow> list_all2 (\<lambda>x z. obj_add x y = Inr z) xs zs"
  by (simp add: series_add_scalar_def traverse_eq_Inr)

lemma series_add_eq_Inr:
  assumes "length xs = length ys"
  shows "series_add xs ys = Inr zs \<longleftrightarrow>
           length zs = length xs \<and> (\<forall>i<length xs. obj_add (xs ! i) (ys ! i) = Inr (zs ! i))"
  using assms
  by (auto simp: series_add_def traverse_eq_Inr list_all2_conv_all_nth)

lemma tech_rows:
  assumes "tech t = Inr s"
  shows "length s = length (rows t)"
    and "i < length (rows t) \<Longrightarrow>
         \<exists>k s1 s2 s3.
           py_int (cell_of (rows t ! i) ''cluster'') = Inr k \<and>
           obj_add (cell_of (rows t ! i) ''Resource'') (Str ''-'') = Inr s1 \<and>
           obj_add s1 (cell_of (rows t ! i) ''region'') = Inr s2 \<and>
           obj_add s2 (Str ''-'') = Inr s3 \<and>
           obj_add s3 (Str (py_str k)) = Inr (s ! i)"
proof -
  from assms obtain s1 s2 s3 ints where
    s1: "list_all2 (\<lambda>x z. obj_add x (Str ''-'') = Inr z)
           (map (\<lambda>r. cell_of r ''Resource'') (rows t)) s1" and
    s2: "series_add s1 (map (\<lambda>r. cell_of r ''region'') (rows t)) = Inr s2" and
    s3: "list_all2 (\<lambda>x z. obj_add x (Str ''-'') = Inr z) s2 s3" and
    ints: "list_all2 (\<lambda>x y. py_int x = Inr y)
           (map (\<lambda>r. cell_of r ''cluster'') (rows t)) ints" and
    s: "series_add s3 (map (\<lambda>i. Str (py_str i)) ints) = Inr s"
    unfolding tech_def bindE_eq_Inr loc_get_eq_Inr series_add_scalar_eq_Inr traverse_eq_Inr
    by blast
  have l1: "length s1 = length (rows t)"
    using list_all2_lengthD[OF s1] by simp
  have s2': "length s2 = length s1"
      "\<forall>i<length s1. obj_add (s1 ! i) (map (\<lambda>r. cell_of r ''region'') (rows t) ! i) = Inr (s2 ! i)"
    using s2 l1 by (simp_all add: series_add_eq_Inr)
  have l3: "length s3 = length s2"
    using list_all2_lengthD[OF s3] by simp
  have li: "length ints = length (rows t)"
    using list_all2_lengthD[OF ints] by simp
  have s': "length s = length s3"
      "\<forall>i<length s3. obj_add (s3 ! i) (map (\<lambda>i. Str (py_str i)) ints ! i) = Inr (s ! i)"
    using s l1 s2'(1) l3 li by (simp_all add: series_add_eq_Inr)
  show "length s = length (rows t)"
    using s'(1) l3 s2'(1) l1 by simp
  assume i: "i < length (rows t)"
  have "py_int (cell_of (rows t ! i) ''cluster'') = Inr (ints ! i)"
    using list_all2_nthD[OF ints, of i] i by simp
  moreover have "obj_add (cell_of (rows t ! i) ''Resource'') (Str ''-'') = Inr (s1 ! i)"
    using list_all2_nthD[OF s1, of i] i by simp
  moreover have "obj_add (s1 ! i) (cell_of (rows t ! i) ''region'') = Inr (s2 ! i)"
    using s2'(2) i l1 by simp
  moreover have "obj_add (s2 ! i) (Str ''-'') = Inr (s3 ! i)"
    using list_all2_nthD[OF s3, of i] i l1 s2'(1) by simp
  moreover have "obj_add (s3 ! i) (Str (py_str (ints ! i))) = Inr (s ! i)"
    using s'(2) i l1 s2'(1) l3 li by simp
  ultimately show "\<exists>k s1 s2 s3.
           py_int (cell_of (rows t ! i) ''cluster'') = Inr k \<and>
           obj_add (cell_of (rows t ! i) ''Resource'') (Str ''-'') = Inr s1 \<and>
           obj_add s1 (cell_of (rows t ! i) ''region'') = Inr s2 \<and>
           obj_add s2 (Str ''-'') = Inr s3 \<and>
           obj_add s3 (Str (py_str k)) = Inr (s ! i)"
    by blast
qed

lemma obj_add_chain:
  assumes "obj_add resource (Str ''-'') = Inr s1" "obj_add s1 region = Inr s2"
    "obj_add s2 (Str ''-'') = Inr s3" "obj_add s3 (Str ks) = Inr v"
  shows "v = (case (resource, region) of
                (Str a, Str b) \<Rightarrow> Str (a @ ''-'' @ b @ ''-'' @ ks)
              | _ \<Rightarrow> NaN)"
  using assms
  by (cases resource; cases region) auto

lemma set_tech_eq_Inr:
  assumes "set_tech t = Inr t'"
  shows "\<exists>s. tech t = Inr s \<and> length s = length (rows t) \<and>
             t' = t\<lparr>columns := add_label ''tech'' (columns t),
                    rows := map (\<lambda>(r, v). AList.update ''tech'' v r) (zip (rows t) s)\<rparr>"
  using assms tech_rows(1)
  by (auto simp: set_tech_def bindE_eq_Inr loc_set_series_def)

lemmas pandas_defs =
  set_tech_def tech_def loc_get_def series_add_def series_add_scalar_def cell_of_def
  py_str_def digits.simps loc_set_series_def add_label_def multi_year_def concat_gens_def
  pd_concat_def select_columns_def reindex_def fill_nan_def fill_zero_def first_period_def
  getattr_def np_isnan_def eq_zero_def loc_set_mask_def

lemmas int_defs = int_of_str_def strip_def is_space_def parse_nat_def digit_val_def

lemma example_set_tech: "set_tech example_all_gens = Inr example_all_gens_tech"
  by (simp add: example_all_gens_def example_all_gens_tech_def pandas_defs)

lemma example_multi_year_eval:
  "multi_year [2025, 2030] example_all_gens_tech example_new_gen = Inr example_multi_year"
  by (simp add: example_all_gens_tech_def example_new_gen_def example_multi_year_def pandas_defs)

lemma example_post_processing:
  "post_processing [2025, 2030] example_memory = (None, example_memory_done)"
  using post_processing_complete[of example_memory example_all_gens_tech "[2025, 2030]"
      example_multi_year]
  by (simp add: example_memory_def example_memory_done_def example_set_tech
      example_multi_year_eval)

lemma map_fst_reindex: "map fst (reindex cs r) = cs"
  by (simp add: reindex_def comp_def)

lemma map_fst_update_present:
  "k \<in> set (map fst r) \<Longrightarrow> map fst (AList.update k v r) = map fst r"
  by (simp add: update_keys)

lemma map_fst_fill_year:
  assumes "''operating_year'' \<in> set (map fst r)"
  shows "map fst (fill_year p r) = map fst r"
proof -
  have "map fst (fill_nan_row p r) = map fst r"
    using assms by (simp add: fill_nan_row_def map_fst_update_present del: set_map)
  moreover from this assms have "map fst (fill_zero_row p (fill_nan_row p r)) = map fst (fill_nan_row p r)"
    by (simp add: fill_zero_row_def[of p "fill_nan_row p r"] map_fst_update_present del: set_map)
  ultimately show ?thesis
    by (simp add: fill_year_def)
qed

lemma cell_of_set_tech_row:
  assumes "length s = length rs" "i < length rs"
  shows "cell_of (map (\<lambda>(r, v). AList.update ''tech'' v r) (zip rs s) ! i) ''tech'' = s ! i"
  using assms by (simp add: cell_of_update)

lemma starts_with_append_yml:
  assumes "starts_with (s @ ''.yml'') ''.yml''" and "s \<noteq> []"
  shows "starts_with s ''.yml''"
proof (cases s)
  case Nil
  with assms(2) show ?thesis by simp
next
  case s: (Cons a s1)
  show ?thesis
  proof (cases s1)
    case Nil
    with s assms(1) show ?thesis by (simp add: starts_with_def)
  next
    case s1: (Cons b s2)
    show ?thesis
    proof (cases s2)
      case Nil
      with s s1 assms(1) show ?thesis by (simp add: starts_with_def)
    next
      case s2: (Cons c s3)
      show ?thesis
      proof (cases s3)
        case Nil
        with s s1 s2 assms(1) show ?thesis by (simp add: starts_with_def)
      next
        case (Cons d s4)
        with s s1 s2 assms(1) show ?thesis by (simp add: starts_with_def)
      qed
    qed
  qed
qed

lemma py_replace_yml_suffix:
  "\<not> contains stem ''.yml'' \<Longrightarrow> py_replace ''.yml'' ''_'' (stem @ ''.yml'') = stem @ ''_''"
proof (induction stem)
  case Nil
  show ?case by (simp add: starts_with_def)
next
  case (Cons c cs)
  from Cons.prems have a: "\<not> starts_with (c # cs) ''.yml''" and b: "\<not> contains cs ''.yml''"
    by simp_all
  from a starts_with_append_yml[of "c # cs"]
  have "\<not> starts_with (c # cs @ ''.yml'') ''.yml''"
    by auto
  with Cons.IH[OF b] show ?case
    by simp
qed

lemma bnd_eq_Inr:
  "bnd m f w = (Inr y, w') \<longleftrightarrow> (\<exists>x w1. m w = (Inr x, w1) \<and> f x w1 = (Inr y, w'))"
  by (auto simp: bnd_def split: prod.splits sum.splits)

lemma ret_eq: "ret x w = (r, w') \<longleftrightarrow> r = Inr x \<and> w' = w"
  by (auto simp: ret_def)

lemma lift_eq: "lift r w = (r', w') \<longleftrightarrow> r = r' \<and> w' = w"
  by (auto simp: lift_def)

lemma call_eq:
  "call s r w = (r', w') \<longleftrightarrow> r = r' \<and> w' = w\<lparr>trace := trace w @ [Call s]\<rparr>"
  by (auto simp: call_def)

lemma to_csv_eq:
  "to_csv sv t path w = (r, w') \<longleftrightarrow>
     r = Inr () \<and>
     w' = w\<lparr>files := (files w)(path \<mapsto> csv_text sv (columns t, rows t)),
            trace := trace w @ [ToCsv path]\<rparr>"
  by (auto simp: to_csv_def)

lemma emits_ret: "emits P (ret x)"
  by (simp add: emits_def ret_def)

lemma emits_lift: "emits P (lift r)"
  by (simp add: emits_def lift_def)

lemma emits_call: "P (Call s) \<Longrightarrow> emits P (call s r)"
  by (simp add: emits_def call_def)

lemma emits_to_csv: "P (ToCsv path) \<Longrightarrow> emits P (to_csv sv t path)"
  by (simp add: emits_def to_csv_def)

lemma emits_read_csv: "P (ReadCsv path) \<Longrightarrow> emits P (read_csv sv path)"
  by (simp add: emits_def read_csv_def)

lemma emits_bnd:
  assumes "emits P m" and "\<And>x. emits P (f x)"
  shows "emits P (bnd m f)"
  unfolding emits_def
proof
  fix w
  from assms(1) obtain evs where m: "trace (snd (m w)) = trace w @ evs" "list_all P evs"
    unfolding emits_def by blast
  show "\<exists>evs. trace (snd (bnd m f w)) = trace w @ evs \<and> list_all P evs"
  proof (cases "m w")
    case (Pair r w1)
    show ?thesis
    proof (cases r)
      case (Inl e)
      with Pair m show ?thesis
        by (auto simp: bnd_def)
    next
      case (Inr x)
      from assms(2)[of x] obtain evs' where
        f: "trace (snd (f x w1)) = trace w1 @ evs'" "list_all P evs'"
        unfolding emits_def by blast
      with Pair Inr m have "trace (snd (bnd m f w)) = trace w @ (evs @ evs')"
        "list_all P (evs @ evs')"
        by (auto simp: bnd_def)
      then show ?thesis by blast
    qed
  qed
qed

lemma emits_if:
  "(c \<Longrightarrow> emits P a) \<Longrightarrow> (\<not> c \<Longrightarrow> emits P b) \<Longrightarrow> emits P (if c then a else b)"
  by simp

lemma emits_case_prod: "(\<And>a b. emits P (g a b)) \<Longrightarrow> emits P (case_prod g x)"
  by (cases x) simp

lemma emits_new_gen_loop:
  "P (Call CreateNewGenerators) \<Longrightarrow> emits P (new_gen_loop sv ss sc years acc)"
  by (induction years arbitrary: acc)
    (auto intro!: emits_ret emits_bnd emits_lift emits_call)

lemma emits_transmission_steps:
  "list_all P (transmission_events prefix) \<Longrightarrow> emits P (transmission_steps sv st)"
  unfolding transmission_steps_def
  by (auto intro!: emits_bnd emits_call simp: transmission_events_def)

lemma emits_reload_branch:
  "(\<And>path. P (ReadCsv path)) \<Longrightarrow> emits P (reload_branch sv st prefix)"
  unfolding reload_branch_def
  by (intro emits_bnd emits_read_csv emits_if emits_ret) simp_all

lemma emits_run_new_branch:
  assumes "\<And>s. s \<in> set [CreateNewGenerators, MakeFinalLoadCurves, CreateAllGenerators,
              AddMiscGenValues, MakeGeneratorVariability, ReduceTimeDomain] \<Longrightarrow> P (Call s)"
    and "\<And>name. name \<in> set [''reduced_load_profile.csv'', ''reduced_resource_profile.csv'',
              ''all_gens.csv'', ''new_gen.csv''] \<Longrightarrow> P (ToCsv (prefix @ name))"
    and "1 < length (region_aggregations st) \<Longrightarrow> list_all P (transmission_events prefix)"
  shows "emits P (run_new_branch sv st ss sc all_periods start_year prefix)"
  unfolding run_new_branch_def
  apply (intro emits_bnd emits_new_gen_loop emits_lift emits_call emits_case_prod emits_if
      emits_ret emits_to_csv emits_transmission_steps[of P prefix])
  using assms by (simp_all add: transmission_events_def)

lemma map_const_replicate: "map (\<lambda>_. c) xs = replicate (length xs) c"
  by (induction xs) auto

lemma loc_set_scalar_Inr:
  assumes "loc_set_scalar t c v = Inr u"
  shows "c \<in> set (columns u)" and "rows u = map (AList.update c v) (rows t)"
  using assms by (auto simp: loc_set_scalar_def add_label_def split: if_splits)

lemma concat_tagged_cells:
  assumes "loc_set_scalar out ''operating_year'' v = Inr tagged"
  shows "map (\<lambda>r. cell_of r ''operating_year'') (rows (pd_concat acc tagged)) =
         map (\<lambda>r. cell_of r ''operating_year'') (rows acc) @ replicate (length (rows out)) v"
proof -
  let ?cs = "columns acc @ filter (\<lambda>c. c \<notin> set (columns acc)) (columns tagged)"
  have "''operating_year'' \<in> set ?cs"
    using loc_set_scalar_Inr(1)[OF assms] by auto
  then have "cell_of (reindex ?cs r) ''operating_year'' = cell_of r ''operating_year''" for r
    by (simp add: cell_of_reindex)
  then show ?thesis
    by (simp add: pd_concat_def Let_def loc_set_scalar_Inr(2)[OF assms] comp_def cell_of_update
        map_const_replicate)
qed

lemma new_gen_loop_Inr:
  assumes "new_gen_loop sv ss sc years acc w = (Inr t, w')"
  shows "\<exists>outs. length outs = length years \<and>
           (\<forall>j < length years. \<exists>cfg. scenario_cfg ss (years ! j) sc = Inr cfg \<and>
                create_new_generators sv cfg = Inr (outs ! j)) \<and>
           map (\<lambda>r. cell_of r ''operating_year'') (rows t) =
             map (\<lambda>r. cell_of r ''operating_year'') (rows acc) @
             concat (map (\<lambda>(y, out). replicate (length (rows out)) (Num (of_int y)))
                       (zip years outs)) \<and>
           trace w' = trace w @ replicate (length years) (Call CreateNewGenerators) \<and>
           files w' = files w"
  using assms
proof (induction years arbitrary: acc w)
  case Nil
  then show ?case
    by (simp add: ret_eq)
next
  case (Cons year years)
  from Cons.prems obtain cfg out tagged w1 where
    cfg: "scenario_cfg ss year sc = Inr cfg" and
    out: "create_new_generators sv cfg = Inr out" and
    tagged: "loc_set_scalar out ''operating_year'' (Num (of_int year)) = Inr tagged" and
    w1: "w1 = w\<lparr>trace := trace w @ [Call CreateNewGenerators]\<rparr>" and
    rest: "new_gen_loop sv ss sc years (pd_concat acc tagged) w1 = (Inr t, w')"
    by (auto simp: bnd_eq_Inr lift_eq call_eq)
  from Cons.IH[OF rest] obtain outs where
    len: "length outs = length years" and
    calls: "\<forall>j < length years. \<exists>cfg. scenario_cfg ss (years ! j) sc = Inr cfg \<and>
                create_new_generators sv cfg = Inr (outs ! j)" and
    cells: "map (\<lambda>r. cell_of r ''operating_year'') (rows t) =
             map (\<lambda>r. cell_of r ''operating_year'') (rows (pd_concat acc tagged)) @
             concat (map (\<lambda>(y, out). replicate (length (rows out)) (Num (of_int y)))
                       (zip years outs))" and
    tr: "trace w' = trace w1 @ replicate (length years) (Call CreateNewGenerators)" and
    fs: "files w' = files w1"
    by blast
  have calls': "\<exists>cfg. scenario_cfg ss ((year # years) ! j) sc = Inr cfg \<and>
                create_new_generators sv cfg = Inr ((out # outs) ! j)"
    if "j < length (year # years)" for j
    using that cfg out calls by (cases j) auto
  have "length (out # outs) = length (year # years)"
    using len by simp
  moreover have "map (\<lambda>r. cell_of r ''operating_year'') (rows t) =
             map (\<lambda>r. cell_of r ''operating_year'') (rows acc) @
             concat (map (\<lambda>(y, out). replicate (length (rows out)) (Num (of_int y)))
                       (zip (year # years) (out # outs)))"
    using cells concat_tagged_cells[OF tagged, of acc] by simp
  moreover have "trace w' = trace w @ replicate (length (year # years)) (Call CreateNewGenerators)"
    using tr w1 by (simp add: replicate_append_same)
  moreover have "files w' = files w"
    using fs w1 by simp
  ultimately show ?case
    using calls' by blast
qed

lemma transmission_steps_Inr:
  assumes "transmission_steps sv st w = (Inr t, w')"
  shows "\<exists>t0 g t1 t2 t3.
           agg_transmission_constraints sv st = Inr t0 \<and>
           load_ipm_shapefile sv st = Inr g \<and>
           transmission_line_distance sv t0 g st = Inr t1 \<and>
           network_line_loss sv t1 st = Inr t2 \<and>
           network_reinforcement_cost sv t2 st = Inr t3 \<and>
           network_max_reinforcement sv t3 st = Inr t" and
        "trace w' = trace w @
           [Call AggTransmissionConstraints, Call LoadIpmShapefile,
            Call TransmissionLineDistance, Call NetworkLineLoss,
            Call NetworkReinforcementCost, Call NetworkMaxReinforcement]" and
        "files w' = files w"
  using assms
  by (auto simp: transmission_steps_def bnd_eq_Inr call_eq)

lemma run_new_branch_Inr:
  assumes "run_new_branch sv st ss sc all_periods start_year prefix w = (Inr m, w')"
  shows "\<exists>new_gen0 w0 cfg load_curves all_gens0 gen_variability lds.
           new_gen_loop sv ss sc (drop 1 all_periods) DataFrame w = (Inr new_gen0, w0) \<and>
           scenario_cfg ss start_year sc = Inr cfg \<and>
           make_final_load_curves sv cfg = Inr load_curves \<and>
           create_all_generators sv cfg = Inr all_gens0 \<and>
           add_misc_gen_values sv all_gens0 st = Inr (all_gens m) \<and>
           add_misc_gen_values sv new_gen0 st = Inr (new_gen m) \<and>
           make_generator_variability sv (all_gens m) = Inr gen_variability \<and>
           reduce_time_domain sv gen_variability load_curves cfg =
             Inr (reduced_resource_profile m, reduced_load_profile m, lds)"
    and "all_gens_multi_year m = None"
    and "1 < length (region_aggregations st) \<Longrightarrow>
         \<exists>t0 g t1 t2 t3 t4.
           agg_transmission_constraints sv st = Inr t0 \<and>
           load_ipm_shapefile sv st = Inr g \<and>
           transmission_line_distance sv t0 g st = Inr t1 \<and>
           network_line_loss sv t1 st = Inr t2 \<and>
           network_reinforcement_cost sv t2 st = Inr t3 \<and>
           network_max_reinforcement sv t3 st = Inr t4 \<and>
           transmission m = Some t4"
    and "\<not> 1 < length (region_aggregations st) \<Longrightarrow> transmission m = None"
    and "trace w' = trace w @
           fresh_events (length (drop 1 all_periods)) (1 < length (region_aggregations st)) prefix"
    and "files w' = files_written sv prefix m (files w)"
proof -
  from assms obtain new_gen0 w0 cfg load_curves all_gens0 all_gens1 new_gen1 gen_variability
      rrp rlp lds trans w1 w2 where
    loop: "new_gen_loop sv ss sc (drop 1 all_periods) DataFrame w = (Inr new_gen0, w0)" and
    cfg: "scenario_cfg ss start_year sc = Inr cfg" and
    lc: "make_final_load_curves sv cfg = Inr load_curves" and
    ag0: "create_all_generators sv cfg = Inr all_gens0" and
    ag1: "add_misc_gen_values sv all_gens0 st = Inr all_gens1" and
    ng1: "add_misc_gen_values sv new_gen0 st = Inr new_gen1" and
    gv: "make_generator_variability sv all_gens1 = Inr gen_variability" and
    rtd: "reduce_time_domain sv gen_variability load_curves cfg = Inr (rrp, rlp, lds)" and
    w1: "w1 = w0\<lparr>trace := trace w0 @
           [Call MakeFinalLoadCurves, Call CreateAllGenerators, Call AddMiscGenValues,
            Call AddMiscGenValues, Call MakeGeneratorVariability, Call ReduceTimeDomain]\<rparr>" and
    tr: "(if 1 < length (region_aggregations st)
          then bnd (transmission_steps sv st) (\<lambda>t.
               bnd (to_csv sv t (prefix @ ''transmission.csv'')) (\<lambda>_. ret (Some t)))
          else ret None) w1 = (Inr trans, w2)" and
    m: "m = \<lparr>reduced_resource_profile = rrp, reduced_load_profile = rlp,
             transmission = trans, all_gens = all_gens1, new_gen = new_gen1,
             all_gens_multi_year = None\<rparr>" and
    w': "w' = w2\<lparr>files := (files w2)
               (prefix @ ''reduced_load_profile.csv'' \<mapsto> csv_text sv (columns rlp, rows rlp),
                prefix @ ''reduced_resource_profile.csv'' \<mapsto> csv_text sv (columns rrp, rows rrp),
                prefix @ ''all_gens.csv'' \<mapsto> csv_text sv (columns all_gens1, rows all_gens1),
                prefix @ ''new_gen.csv'' \<mapsto> csv_text sv (columns new_gen1, rows new_gen1)),
             trace := trace w2 @
               [ToCsv (prefix @ ''reduced_load_profile.csv''),
                ToCsv (prefix @ ''reduced_resource_profile.csv''),
                ToCsv (prefix @ ''all_gens.csv''), ToCsv (prefix @ ''new_gen.csv'')]\<rparr>"
    unfolding run_new_branch_def
    by (auto simp: bnd_eq_Inr[where m = "new_gen_loop _ _ _ _ _"] bnd_eq_Inr lift_eq call_eq
        to_csv_eq ret_eq split: prod.splits)
  from new_gen_loop_Inr[OF loop] have w0: "trace w0 = trace w @
      replicate (length (drop 1 all_periods)) (Call CreateNewGenerators)" "files w0 = files w"
    by auto
  show "\<exists>new_gen0 w0 cfg load_curves all_gens0 gen_variability lds.
           new_gen_loop sv ss sc (drop 1 all_periods) DataFrame w = (Inr new_gen0, w0) \<and>
           scenario_cfg ss start_year sc = Inr cfg \<and>
           make_final_load_curves sv cfg = Inr load_curves \<and>
           create_all_generators sv cfg = Inr all_gens0 \<and>
           add_misc_gen_values sv all_gens0 st = Inr (all_gens m) \<and>
           add_misc_gen_values sv new_gen0 st = Inr (new_gen m) \<and>
           make_generator_variability sv (all_gens m) = Inr gen_variability \<and>
           reduce_time_domain sv gen_variability load_curves cfg =
             Inr (reduced_resource_profile m, reduced_load_profile m, lds)"
    using loop cfg lc ag0 ag1 ng1 gv rtd by (auto simp: m)
  show "all_gens_multi_year m = None"
    by (simp add: m)
  show "\<not> 1 < length (region_aggregations st) \<Longrightarrow> transmission m = None"
    using tr by (auto simp: m ret_eq)
  show "\<exists>t0 g t1 t2 t3 t4.
           agg_transmission_constraints sv st = Inr t0 \<and>
           load_ipm_shapefile sv st = Inr g \<and>
           transmission_line_distance sv t0 g st = Inr t1 \<and>
           network_line_loss sv t1 st = Inr t2 \<and>
           network_reinforcement_cost sv t2 st = Inr t3 \<and>
           network_max_reinforcement sv t3 st = Inr t4 \<and>
           transmission m = Some t4"
    if n: "1 < length (region_aggregations st)"
  proof -
    from tr n obtain t w3 where t: "transmission_steps sv st w1 = (Inr t, w3)"
        and "trans = Some t"
      by (auto simp: bnd_eq_Inr to_csv_eq ret_eq)
    with transmission_steps_Inr(1)[OF t] show ?thesis
      by (simp add: m)
  qed
  show "trace w' = trace w @
      fresh_events (length (drop 1 all_periods)) (1 < length (region_aggregations st)) prefix"
  proof (cases "1 < length (region_aggregations st)")
    case True
    with tr obtain t w3 where t: "transmission_steps sv st w1 = (Inr t, w3)"
        and "w2 = w3\<lparr>files := (files w3)(prefix @ ''transmission.csv'' \<mapsto>
                 csv_text sv (columns t, rows t)),
               trace := trace w3 @ [ToCsv (prefix @ ''transmission.csv'')]\<rparr>"
      by (auto simp: bnd_eq_Inr to_csv_eq ret_eq)
    with transmission_steps_Inr(2)[OF t] True show ?thesis
      by (simp add: w' w1 w0 fresh_events_def transmission_events_def)
  next
    case False
    with tr have "w2 = w1"
      by (simp add: ret_eq)
    with False show ?thesis
      by (simp add: w' w1 w0 fresh_events_def)
  qed
  show "files w' = files_written sv prefix m (files w)"
  proof (cases "1 < length (region_aggregations st)")
    case True
    with tr obtain t w3 where t: "transmission_steps sv st w1 = (Inr t, w3)"
        and "trans = Some t"
        and "w2 = w3\<lparr>files := (files w3)(prefix @ ''transmission.csv'' \<mapsto>
                 csv_text sv (columns t, rows t)),
               trace := trace w3 @ [ToCsv (prefix @ ''transmission.csv'')]\<rparr>"
      by (auto simp: bnd_eq_Inr to_csv_eq ret_eq)
    with transmission_steps_Inr(3)[OF t] show ?thesis
      by (simp add: w' w1 w0 m files_written_def)
  next
    case False
    with tr have "w2 = w1" "trans = None"
      by (auto simp: ret_eq)
    then show ?thesis
      by (simp add: w' w1 w0 m files_written_def)
  qed
qed

lemma read_csv_written:
  assumes "files w path = Some (csv_text sv (columns t, rows t))" and "csv_lossless sv t"
  shows "read_csv sv path w = (Inr (reset_index t), w\<lparr>trace := trace w @ [ReadCsv path]\<rparr>)"
  using assms by (simp add: read_csv_def csv_lossless_def reset_index_def)

lemma files_written_lookup:
  "files_written sv prefix m fs (prefix @ ''reduced_load_profile.csv'') =
     Some (csv_text sv (columns (reduced_load_profile m), rows (reduced_load_profile m)))"
  "files_written sv prefix m fs (prefix @ ''reduced_resource_profile.csv'') =
     Some (csv_text sv (columns (reduced_resource_profile m), rows (reduced_resource_profile m)))"
  "files_written sv prefix m fs (prefix @ ''all_gens.csv'') =
     Some (csv_text sv (columns (all_gens m), rows (all_gens m)))"
  "files_written sv prefix m fs (prefix @ ''new_gen.csv'') =
     Some (csv_text sv (columns (new_gen m), rows (new_gen m)))"
  "transmission m = Some t \<Longrightarrow>
   files_written sv prefix m fs (prefix @ ''transmission.csv'') =
     Some (csv_text sv (columns t, rows t))"
  by (simp_all add: files_written_def Let_def)

lemma reload_branch_written:
  assumes fs: "files w = files_written sv prefix m fs"
    and ok: "list_all (csv_lossless sv) (written_tables m)"
    and tr: "1 < length (region_aggregations st) \<longleftrightarrow> transmission m \<noteq> None"
  shows "\<exists>w'. reload_branch sv st prefix w = (Inr (reloaded m), w') \<and> files w' = files w \<and>
              trace w' = trace w @ reload_events (transmission m \<noteq> None) prefix"
proof -
  have ok4: "csv_lossless sv (reduced_load_profile m)"
    "csv_lossless sv (reduced_resource_profile m)"
    "csv_lossless sv (all_gens m)" "csv_lossless sv (new_gen m)"
    using ok by (simp_all add: written_tables_def)
  define w1 where "w1 = w\<lparr>trace := trace w @ [ReadCsv (prefix @ ''reduced_load_profile.csv'')]\<rparr>"
  define w2 where "w2 = w1\<lparr>trace := trace w1 @ [ReadCsv (prefix @ ''reduced_resource_profile.csv'')]\<rparr>"
  define w3 where "w3 = w2\<lparr>trace := trace w2 @ [ReadCsv (prefix @ ''all_gens.csv'')]\<rparr>"
  define w4 where "w4 = w3\<lparr>trace := trace w3 @ [ReadCsv (prefix @ ''new_gen.csv'')]\<rparr>"
  have fsw: "files w1 = files w" "files w2 = files w" "files w3 = files w" "files w4 = files w"
    by (simp_all add: w1_def w2_def w3_def w4_def)
  have tr4: "trace w4 = trace w @ reload_events False prefix"
    by (simp add: w1_def w2_def w3_def w4_def reload_events_def)
  have r1: "read_csv sv (prefix @ ''reduced_load_profile.csv'') w =
      (Inr (reset_index (reduced_load_profile m)), w1)"
    unfolding w1_def by (rule read_csv_written) (simp_all add: fs files_written_lookup ok4)
  have r2: "read_csv sv (prefix @ ''reduced_resource_profile.csv'') w1 =
      (Inr (reset_index (reduced_resource_profile m)), w2)"
    unfolding w2_def by (rule read_csv_written) (simp_all add: fsw fs files_written_lookup ok4)
  have r3: "read_csv sv (prefix @ ''all_gens.csv'') w2 = (Inr (reset_index (all_gens m)), w3)"
    unfolding w3_def by (rule read_csv_written) (simp_all add: fsw fs files_written_lookup ok4)
  have r4: "read_csv sv (prefix @ ''new_gen.csv'') w3 = (Inr (reset_index (new_gen m)), w4)"
    unfolding w4_def by (rule read_csv_written) (simp_all add: fsw fs files_written_lookup ok4)
  show ?thesis
  proof (cases "transmission m")
    case None
    with tr have "\<not> 1 < length (region_aggregations st)"
      by simp
    with None r1 r2 r3 r4 fsw tr4 show ?thesis
      by (simp add: reload_branch_def bnd_def ret_def reloaded_def)
  next
    case (Some t)
    with tr have n: "1 < length (region_aggregations st)"
      by simp
    from Some ok have "csv_lossless sv t"
      by (simp add: written_tables_def)
    with Some have r5: "read_csv sv (prefix @ ''transmission.csv'') w4 =
        (Inr (reset_index t), w4\<lparr>trace := trace w4 @ [ReadCsv (prefix @ ''transmission.csv'')]\<rparr>)"
      by (intro read_csv_written) (simp_all add: fsw fs files_written_lookup)
    moreover have "trace w4 @ [ReadCsv (prefix @ ''transmission.csv'')] =
        trace w @ reload_events True prefix"
      by (simp add: tr4 reload_events_def)
    ultimately show ?thesis
      using Some n r1 r2 r3 r4 fsw
      by (simp add: reload_branch_def bnd_def ret_def reloaded_def)
  qed
qed

lemma load_tables_fresh:
  assumes "load_tables sv inp w = (Inr m, w')" and "run_new inp = 1"
  shows "\<exists>start_year. first_period (all_periods_of inp) = Inr start_year \<and>
           run_new_branch sv (settings_of inp) (scenario_settings inp) (scenario inp)
             (all_periods_of inp) start_year (file_prefix_of (settings_path inp)) w = (Inr m, w')"
  using assms by (auto simp: load_tables_def bnd_eq_Inr lift_eq)

lemma load_tables_reuse:
  assumes "first_period (all_periods_of inp) = Inr start_year" and "run_new inp \<noteq> 1"
  shows "load_tables sv inp w =
           reload_branch sv (settings_of inp) (file_prefix_of (settings_path inp)) w"
  using assms by (simp add: load_tables_def bnd_def lift_def)

lemma load_tables_reload:
  assumes "load_tables sv inp w = (Inr m, w1)" and "run_new inp = 1" and "flag \<noteq> 1"
    and "list_all (csv_lossless sv) (written_tables m)"
  shows "\<exists>w2. load_tables sv (inp\<lparr>run_new := flag\<rparr>) w1 = (Inr (reloaded m), w2) \<and>
           trace w2 = trace w1 @
             reload_events (transmission m \<noteq> None) (file_prefix_of (settings_path inp))"
proof -
  let ?st = "settings_of inp" and ?prefix = "file_prefix_of (settings_path inp)"
  from load_tables_fresh[OF assms(1,2)] obtain start_year where
    p: "first_period (all_periods_of inp) = Inr start_year" and
    run: "run_new_branch sv ?st (scenario_settings inp) (scenario inp)
             (all_periods_of inp) start_year ?prefix w = (Inr m, w1)"
    by blast
  have fs: "files w1 = files_written sv ?prefix m (files w)"
    using run_new_branch_Inr(6)[OF run] .
  have tr: "1 < length (region_aggregations ?st) \<longleftrightarrow> transmission m \<noteq> None"
  proof (cases "1 < length (region_aggregations ?st)")
    case True
    with run_new_branch_Inr(3)[OF run] show ?thesis by auto
  next
    case False
    with run_new_branch_Inr(4)[OF run] show ?thesis by simp
  qed
  from reload_branch_written[OF fs assms(4) tr] obtain w2 where
    "reload_branch sv ?st ?prefix w1 = (Inr (reloaded m), w2)"
    "trace w2 = trace w1 @ reload_events (transmission m \<noteq> None) ?prefix"
    by blast
  moreover have "load_tables sv (inp\<lparr>run_new := flag\<rparr>) w1 = reload_branch sv ?st ?prefix w1"
    using load_tables_reuse[of "inp\<lparr>run_new := flag\<rparr>" start_year sv w1] p assms(3)
    by (simp add: all_periods_of_def)
  ultimately show ?thesis
    by simp
qed

lemma emits_unique:
  assumes "emits P m" and "trace (snd (m w)) = trace w @ evs"
  shows "list_all P evs"
proof -
  from assms(1) obtain evs' where "trace (snd (m w)) = trace w @ evs'" "list_all P evs'"
    unfolding emits_def by blast
  with assms(2) show ?thesis by simp
qed

lemma emits_trace:
  assumes "emits P m"
  shows "\<exists>evs. trace (snd (m w)) = trace w @ evs"
  using assms unfolding emits_def by blast

lemma emits_load_tables:
  assumes "run_new inp \<noteq> 1 \<or>
      (\<forall>start_year. emits P (run_new_branch sv (settings_of inp) (scenario_settings inp)
         (scenario inp) (all_periods_of inp) start_year (file_prefix_of (settings_path inp))))"
    and "run_new inp = 1 \<or> emits P (reload_branch sv (settings_of inp) (file_prefix_of (settings_path inp)))"
  shows "emits P (load_tables sv inp)"
  unfolding load_tables_def using assms
  by (intro emits_bnd emits_lift emits_if) auto

lemma emits_load_tables_True: "emits (\<lambda>_. True) (load_tables sv inp)"
  by (intro emits_load_tables disjI2 allI emits_run_new_branch emits_reload_branch)
    (simp_all add: list_all_iff)

lemma emits_load_tables_no_transmission:
  assumes "length (region_aggregations (settings_of inp)) \<le> 1"
  shows "emits (\<lambda>e. e \<notin> set (transmission_events (file_prefix_of (settings_path inp))))
           (load_tables sv inp)"
  using assms
  by (intro emits_load_tables disjI2 allI emits_run_new_branch emits_reload_branch)
    (auto simp: transmission_events_def)

lemma emits_load_tables_no_write:
  assumes "run_new inp \<noteq> 1"
  shows "emits (\<lambda>e. \<not> is_write e) (load_tables sv inp)"
  using assms
  by (intro emits_load_tables emits_reload_branch disjI1 disjI2) (simp_all add: is_write_def)

lemma transmission_csv_in_fresh_events:
  "ToCsv (prefix @ ''transmission.csv'') \<in> set (fresh_events k b prefix) \<longleftrightarrow> b"
  by (simp add: fresh_events_def transmission_events_def)

lemma filter_fresh_events:
  "filter (\<lambda>e. e \<in> set (transmission_events prefix)) (fresh_events k True prefix) =
     transmission_events prefix"
  by (simp add: fresh_events_def transmission_events_def)




lemmas run_defs =
  load_tables_def run_new_branch_def bnd_def lift_def call_def ret_def to_csv_def
  transmission_steps_def scenario_cfg_def lookup_def first_period_def all_periods_of_def
  loc_set_scalar_def add_label_def pd_concat_def reindex_def cell_of_def DataFrame_def
  bindE_def

lemma example_prefix:
  "file_prefix_of (settings_path example_inputs) = ''US_National/US_N_settings_''"
  by (simp add: example_inputs_def file_prefix_of_def starts_with_def)


lemma example_fresh_run:
  "load_tables example_services example_inputs example_world = (Inr example_fresh, example_disk)"
proof -
  have "fst (load_tables example_services example_inputs example_world) = Inr example_fresh"
    by (simp add: run_defs example_prefix example_services_def example_inputs_def
        example_settings_def example_new_gen_year_def example_lines_def example_fresh_def
        example_transmission_def example_new_gen_later_def)
  then show ?thesis
    by (simp add: example_disk_def prod_eq_iff)
qed

lemma example_lossless: "list_all (csv_lossless example_services) (written_tables example_fresh)"
  by (simp add: csv_lossless_def written_tables_def example_services_def example_fresh_def)

lemma example_reloaded_eval: "reloaded example_fresh = example_reloaded"
  by (simp add: reloaded_def reset_index_def example_fresh_def example_reloaded_def
      example_variability_def example_load_def example_transmission_def example_all_gens_def
      example_new_gen_later_def upt_rec)

lemma example_facts:
  "run_new example_inputs = 1"
  "1 < length (region_aggregations (settings_of example_inputs))"
  "trace example_world = []"
  "length (region_aggregations (settings_of example_inputs_one)) \<le> 1"
  "settings_path example_inputs_one = settings_path example_inputs"
  by (simp_all add: example_inputs_def example_inputs_one_def example_settings_def
      example_settings_one_def example_world_def)

lemma example_reuse_run:
  "fst (load_tables example_services example_inputs_reuse example_disk) = Inr example_reloaded"
  "trace (snd (load_tables example_services example_inputs_reuse example_disk)) =
     trace example_disk @ reload_events True ''US_National/US_N_settings_''"
proof -
  have "(0::int) \<noteq> 1" by simp
  from load_tables_reload[OF example_fresh_run example_facts(1) this example_lossless]
  obtain w2 where
    run: "load_tables example_services (example_inputs\<lparr>run_new := 0\<rparr>) example_disk =
       (Inr (reloaded example_fresh), w2)" and
    tr: "trace w2 = trace example_disk @
       reload_events (transmission example_fresh \<noteq> None)
         (file_prefix_of (settings_path example_inputs))"
    by blast
  have t: "transmission example_fresh \<noteq> None"
    by (simp add: example_fresh_def)
  show "fst (load_tables example_services example_inputs_reuse example_disk) = Inr example_reloaded"
    unfolding example_inputs_reuse_def run by (simp add: example_reloaded_eval)
  show "trace (snd (load_tables example_services example_inputs_reuse example_disk)) =
       trace example_disk @ reload_events True ''US_National/US_N_settings_''"
    unfolding example_inputs_reuse_def run using tr t by (simp add: example_prefix)
qed

lemma filter_is_write_fresh_events:
  "filter is_write (fresh_events k b prefix) =
     map (\<lambda>name. ToCsv (prefix @ name))
       ((if b then [''transmission.csv''] else []) @
        [''reduced_load_profile.csv'', ''reduced_resource_profile.csv'',
         ''all_gens.csv'', ''new_gen.csv''])"
  by (simp add: fresh_events_def transmission_events_def is_write_def)


section \<open>The combined multi-period table\<close>

text \<open>
  C4. When post-processing completes, the combined table has exactly the
  columns of the start-year table it was concatenated from (the start-year
  table with its key column): every column of the start-year table is a column
  of the combined table, every column only the new-generator table has is
  absent, and every row of the combined table carries exactly these labels.
\<close>

theorem combined_columns:
  assumes "post_processing all_periods m = (None, m')"
  shows "\<exists>t. all_gens_multi_year m' = Some t \<and>
             columns (all_gens m') = add_label ''tech'' (columns (all_gens m)) \<and>
             columns t = columns (all_gens m') \<and>
             (\<forall>c \<in> set (columns (all_gens m)). c \<in> set (columns t)) \<and>
             (\<forall>c \<in> set (columns (new_gen m)).
                c \<notin> set (columns (all_gens m')) \<longrightarrow> c \<notin> set (columns t)) \<and>
             (\<forall>r \<in> set (rows t). map fst r = columns t)"
proof -
  from post_processing_None[OF assms] obtain ag t where
    ag: "set_tech (all_gens m) = Inr ag" and
    t: "multi_year all_periods ag (new_gen m) = Inr t" and
    m': "m' = m\<lparr>all_gens := ag, all_gens_multi_year := Some t\<rparr>"
    by blast
  from multi_year_eq_Inr[OF t] obtain p where
    oy: "''operating_year'' \<in> set (columns ag)" and
    t_eq: "t = \<lparr>columns = columns ag, index = index ag @ index (new_gen m),
       rows = map (\<lambda>r. fill_year p (reindex (columns ag) r)) (rows ag @ rows (new_gen m))\<rparr>"
    by blast
  have cols: "columns ag = add_label ''tech'' (columns (all_gens m))"
    using set_tech_columns[OF ag] .
  have "\<forall>r \<in> set (rows t). map fst r = columns t"
    using oy by (auto simp: t_eq map_fst_fill_year map_fst_reindex)
  moreover have "\<forall>c \<in> set (columns (all_gens m)). c \<in> set (columns t)"
    by (simp add: t_eq cols add_label_def)
  ultimately show ?thesis
    using cols by (simp add: m' t_eq)
qed

theorem combined_columns_witness:
  "post_processing [2025, 2030] example_memory = (None, example_memory_done) \<and>
   all_gens_multi_year example_memory_done = Some example_multi_year \<and>
   columns example_multi_year =
     [''Resource'', ''region'', ''cluster'', ''operating_year'', ''tech''] \<and>
   columns (all_gens example_memory) =
     [''Resource'', ''region'', ''cluster'', ''operating_year''] \<and>
   columns (new_gen example_memory) = [''Resource'', ''operating_year'', ''extra''] \<and>
   ''extra'' \<notin> set (columns example_multi_year) \<and>
   length (rows example_multi_year) = 4"
proof -
  have "all_gens_multi_year example_memory_done = Some example_multi_year"
    by (simp add: example_memory_done_def)
  moreover have "columns example_multi_year =
      [''Resource'', ''region'', ''cluster'', ''operating_year'', ''tech'']"
    "''extra'' \<notin> set (columns example_multi_year)"
    "length (rows example_multi_year) = 4"
    by (simp_all add: example_multi_year_def)
  moreover have "columns (all_gens example_memory) =
      [''Resource'', ''region'', ''cluster'', ''operating_year'']"
    "columns (new_gen example_memory) = [''Resource'', ''operating_year'', ''extra'']"
    by (simp_all add: example_memory_def example_all_gens_def example_new_gen_def)
  ultimately have closed: ?thesis
    using example_post_processing by blast
  from combined_columns[OF example_post_processing] show ?thesis
    by - (rule closed)
qed

text \<open>
  C1. Planning periods are calendar years, so the first one is not zero. When
  post-processing completes, every row whose \<^verbatim>\<open>operating_year\<close> is missing or
  zero after the concatenation has the first planning period as its
  \<^verbatim>\<open>operating_year\<close>, every other row is as it was, and no row of the final
  table has a missing or zero \<^verbatim>\<open>operating_year\<close>.
\<close>

theorem operating_year_populated:
  assumes "post_processing all_periods m = (None, m')"
    and "all_periods = p # later" and "p \<noteq> 0"
  shows "\<exists>t t0. all_gens_multi_year m' = Some t \<and>
           concat_gens (all_gens m') (new_gen m') = Inr t0 \<and>
           length (rows t) = length (rows t0) \<and>
           (\<forall>i < length (rows t0).
              (if cell_of (rows t0 ! i) ''operating_year'' = NaN \<or>
                  cell_of (rows t0 ! i) ''operating_year'' = Num 0
               then cell_of (rows t ! i) ''operating_year'' = Num (of_int p)
               else rows t ! i = rows t0 ! i)) \<and>
           (\<forall>r \<in> set (rows t).
              cell_of r ''operating_year'' \<noteq> NaN \<and> cell_of r ''operating_year'' \<noteq> Num 0)"
proof -
  from post_processing_None[OF assms(1)] obtain ag t where
    t: "multi_year all_periods ag (new_gen m) = Inr t" and
    m': "m' = m\<lparr>all_gens := ag, all_gens_multi_year := Some t\<rparr>"
    by blast
  define t0 where "t0 = \<lparr>columns = columns ag, index = index ag @ index (new_gen m),
    rows = map (reindex (columns ag)) (rows ag) @ map (reindex (columns ag)) (rows (new_gen m))\<rparr>"
  from multi_year_eq_Inr[OF t] assms(2) have
    t_eq: "t = \<lparr>columns = columns ag, index = index ag @ index (new_gen m),
       rows = map (\<lambda>r. fill_year p (reindex (columns ag) r)) (rows ag @ rows (new_gen m))\<rparr>"
    by (auto simp: first_period_def)
  have rows_t: "rows t = map (fill_year p) (rows t0)"
    by (simp add: t_eq t0_def)
  have a: "concat_gens (all_gens m') (new_gen m') = Inr t0"
    by (simp add: m' t0_def concat_gens_eq)
  have b: "\<forall>i < length (rows t0).
              (if cell_of (rows t0 ! i) ''operating_year'' = NaN \<or>
                  cell_of (rows t0 ! i) ''operating_year'' = Num 0
               then cell_of (rows t ! i) ''operating_year'' = Num (of_int p)
               else rows t ! i = rows t0 ! i)"
    unfolding rows_t
    by (simp add: cell_of_fill_year) (simp add: fill_year_def fill_nan_row_def fill_zero_row_def)
  have c: "\<forall>r \<in> set (rows t).
              cell_of r ''operating_year'' \<noteq> NaN \<and> cell_of r ''operating_year'' \<noteq> Num 0"
    unfolding rows_t using assms(3) by (auto simp: cell_of_fill_year)
  from a b c show ?thesis
    by (simp add: m' rows_t)
qed

theorem operating_year_populated_witness:
  "post_processing [2025, 2030] example_memory = (None, example_memory_done) \<and>
   (2025::int) \<noteq> 0 \<and>
   all_gens_multi_year example_memory_done = Some example_multi_year \<and>
   map (\<lambda>r. cell_of r ''operating_year'') (rows example_multi_year) =
     [Num 2025, Num 2025, Num 2020, Num 2030]"
proof -
  have "all_gens_multi_year example_memory_done = Some example_multi_year"
    by (simp add: example_memory_done_def)
  moreover have "map (\<lambda>r. cell_of r ''operating_year'') (rows example_multi_year) =
      [Num 2025, Num 2025, Num 2020, Num 2030]"
    by (simp add: example_multi_year_def cell_of_def)
  ultimately show ?thesis
    using operating_year_populated[OF example_post_processing, of 2025 "[2030]"]
      example_post_processing
    by simp
qed

text \<open>
  C9. The key column is set on the start-year table only. When the
  new-generator table has no column of that name, every row of the combined
  table that comes from the new-generator table has a missing value in the
  key column.
\<close>

theorem new_gen_rows_tech_null:
  assumes "post_processing all_periods m = (None, m')"
    and "wf_table (new_gen m)" and "''tech'' \<notin> set (columns (new_gen m))"
  shows "\<exists>t. all_gens_multi_year m' = Some t \<and> ''tech'' \<in> set (columns t) \<and>
             length (rows t) = length (rows (all_gens m)) + length (rows (new_gen m)) \<and>
             (\<forall>i < length (rows (new_gen m)).
                cell_of (rows t ! (length (rows (all_gens m)) + i)) ''tech'' = NaN)"
proof -
  from post_processing_None[OF assms(1)] obtain ag t where
    ag: "set_tech (all_gens m) = Inr ag" and
    t: "multi_year all_periods ag (new_gen m) = Inr t" and
    m': "m' = m\<lparr>all_gens := ag, all_gens_multi_year := Some t\<rparr>"
    by blast
  from multi_year_eq_Inr[OF t] obtain p where
    t_eq: "t = \<lparr>columns = columns ag, index = index ag @ index (new_gen m),
       rows = map (\<lambda>r. fill_year p (reindex (columns ag) r)) (rows ag @ rows (new_gen m))\<rparr>"
    by blast
  from set_tech_eq_Inr[OF ag] have len: "length (rows ag) = length (rows (all_gens m))"
    by auto
  have tech_col: "''tech'' \<in> set (columns ag)"
    using set_tech_columns[OF ag] by (simp add: add_label_def)
  have "cell_of (rows t ! (length (rows (all_gens m)) + i)) ''tech'' = NaN"
    if i: "i < length (rows (new_gen m))" for i
  proof -
    let ?r = "rows (new_gen m) ! i"
    have "?r \<in> set (rows (new_gen m))"
      using i by simp
    with assms(2) have "map fst ?r = columns (new_gen m)"
      by (simp add: wf_table_def list_all_iff)
    with assms(3) have "cell_of ?r ''tech'' = NaN"
      by (simp add: cell_of_absent)
    moreover have "rows t ! (length (rows (all_gens m)) + i)
        = fill_year p (reindex (columns ag) ?r)"
      using i len by (simp add: t_eq nth_append)
    ultimately show ?thesis
      by (simp add: cell_of_fill_year_other cell_of_reindex)
  qed
  then show ?thesis
    using tech_col len by (simp add: m' t_eq)
qed

theorem new_gen_rows_tech_null_witness:
  "post_processing [2025, 2030] example_memory = (None, example_memory_done) \<and>
   wf_table (new_gen example_memory) \<and>
   ''tech'' \<notin> set (columns (new_gen example_memory)) \<and>
   length (rows (new_gen example_memory)) = 1 \<and>
   length (rows (all_gens example_memory)) = 3 \<and>
   cell_of (rows example_multi_year ! 3) ''tech'' = NaN"
proof -
  have wf: "wf_table (new_gen example_memory)"
    by (simp add: example_memory_def example_new_gen_def wf_table_def)
  have no: "''tech'' \<notin> set (columns (new_gen example_memory))"
    by (simp add: example_memory_def example_new_gen_def)
  have "length (rows (new_gen example_memory)) = 1"
    "length (rows (all_gens example_memory)) = 3"
    by (simp_all add: example_memory_def example_new_gen_def example_all_gens_def)
  moreover have "cell_of (rows example_multi_year ! 3) ''tech'' = NaN"
    by (simp add: example_multi_year_def cell_of_def)
  ultimately show ?thesis
    using new_gen_rows_tech_null[OF example_post_processing wf no] example_post_processing wf no
    by simp
qed

section \<open>The key column\<close>

text \<open>
  C7. When the key column is built, the key of a row whose resource name and
  region are strings is the resource name, a hyphen, the region, a hyphen and
  the cluster value converted to an integer and written in decimal, in this
  order; the key of a row whose resource name or region is missing is missing.
  The cluster value of every row converts to an integer.
\<close>

theorem tech_value:
  assumes "set_tech t = Inr t'" and "i < length (rows t)"
  shows "\<exists>k. py_int (cell_of (rows t ! i) ''cluster'') = Inr k \<and>
             cell_of (rows t' ! i) ''tech'' =
               (case (cell_of (rows t ! i) ''Resource'', cell_of (rows t ! i) ''region'') of
                  (Str a, Str b) \<Rightarrow> Str (a @ ''-'' @ b @ ''-'' @ py_str k)
                | _ \<Rightarrow> NaN)"
proof -
  from set_tech_eq_Inr[OF assms(1)] obtain s where
    s: "tech t = Inr s" and len: "length s = length (rows t)" and
    t': "t' = t\<lparr>columns := add_label ''tech'' (columns t),
                 rows := map (\<lambda>(r, v). AList.update ''tech'' v r) (zip (rows t) s)\<rparr>"
    by blast
  from tech_rows(2)[OF s assms(2)] obtain k s1 s2 s3 where
    k: "py_int (cell_of (rows t ! i) ''cluster'') = Inr k" and
    chain: "obj_add (cell_of (rows t ! i) ''Resource'') (Str ''-'') = Inr s1"
      "obj_add s1 (cell_of (rows t ! i) ''region'') = Inr s2"
      "obj_add s2 (Str ''-'') = Inr s3"
      "obj_add s3 (Str (py_str k)) = Inr (s ! i)"
    by blast
  have "cell_of (rows t' ! i) ''tech'' = s ! i"
    using cell_of_set_tech_row[OF len assms(2)] by (simp add: t')
  with obj_add_chain[OF chain] k show ?thesis
    by simp
qed

theorem tech_value_witness:
  "set_tech example_all_gens = Inr example_all_gens_tech \<and>
   (0::nat) < length (rows example_all_gens) \<and>
   py_int (cell_of (rows example_all_gens ! 0) ''cluster'') = Inr 1 \<and>
   cell_of (rows example_all_gens ! 0) ''Resource'' = Str ''a'' \<and>
   cell_of (rows example_all_gens ! 0) ''region'' = Str ''b'' \<and>
   cell_of (rows example_all_gens_tech ! 0) ''tech'' = Str ''a-b-1''"
proof -
  have i: "(0::nat) < length (rows example_all_gens)"
    by (simp add: example_all_gens_def)
  have cells: "py_int (cell_of (rows example_all_gens ! 0) ''cluster'') = Inr 1"
    "cell_of (rows example_all_gens ! 0) ''Resource'' = Str ''a''"
    "cell_of (rows example_all_gens ! 0) ''region'' = Str ''b''"
    by (simp_all add: example_all_gens_def cell_of_def)
  have str: "py_str 1 = ''1''"
    by (simp add: py_str_def digits.simps)
  from tech_value[OF example_set_tech i] cells str
  have "cell_of (rows example_all_gens_tech ! 0) ''tech'' = Str ''a-b-1''"
    by simp
  with example_set_tech i cells show ?thesis
    by simp
qed

text \<open>
  At the first row of the example the key is \<^verbatim>\<open>a-b-1\<close>, not the three parts
  written one after the other.
\<close>

theorem tech_value_counterexample:
  "set_tech example_all_gens = Inr example_all_gens_tech \<and>
   cell_of (rows example_all_gens ! 0) ''Resource'' = Str ''a'' \<and>
   cell_of (rows example_all_gens ! 0) ''region'' = Str ''b'' \<and>
   py_int (cell_of (rows example_all_gens ! 0) ''cluster'') = Inr 1 \<and>
   cell_of (rows example_all_gens_tech ! 0) ''tech'' = Str ''a-b-1'' \<and>
   cell_of (rows example_all_gens_tech ! 0) ''tech'' \<noteq> Str (''a'' @ ''b'' @ py_str 1)"
proof -
  have "cell_of (rows example_all_gens ! 0) ''Resource'' = Str ''a''"
    "cell_of (rows example_all_gens ! 0) ''region'' = Str ''b''"
    "py_int (cell_of (rows example_all_gens ! 0) ''cluster'') = Inr 1"
    by (simp_all add: example_all_gens_def cell_of_def)
  moreover have "cell_of (rows example_all_gens_tech ! 0) ''tech'' = Str ''a-b-1''"
    by (simp add: example_all_gens_tech_def cell_of_def)
  moreover have "Str ''a-b-1'' \<noteq> Str (''a'' @ ''b'' @ py_str 1)"
    by (simp add: py_str_def digits.simps)
  ultimately show ?thesis
    using example_set_tech by simp
qed

text \<open>
  C10. The key is built only when every cluster value converts to an integer:
  when the cluster value of some row does not convert (\<^verbatim>\<open>int\<close> raises on it: the
  value is missing, or it is a string that is no integer literal), building the
  key raises, post-processing stops there and the tables are as they were, so a
  start-year table that had no key column has none.
\<close>

theorem cluster_not_convertible:
  assumes "r \<in> set (rows (all_gens m))" and "py_int (cell_of r ''cluster'') = Inl e"
  shows "(cell_of r ''cluster'' = NaN \<or>
          (\<exists>s. cell_of r ''cluster'' = Str s \<and> int_of_str s = None)) \<and>
         (\<exists>e'. set_tech (all_gens m) = Inl e' \<and>
              post_processing all_periods m = (Some e', m) \<and>
              (''tech'' \<notin> set (columns (all_gens m)) \<longrightarrow>
               ''tech'' \<notin> set (columns (all_gens (snd (post_processing all_periods m))))))"
proof (cases "set_tech (all_gens m)")
  case (Inl e')
  then show ?thesis
    using assms(2) by (simp add: post_processing_set_tech_Inl py_int_eq_Inl)
next
  case (Inr t')
  from assms(1) obtain i where i: "i < length (rows (all_gens m))"
      and r: "rows (all_gens m) ! i = r"
    by (auto simp: in_set_conv_nth)
  from set_tech_eq_Inr[OF Inr] obtain s where s: "tech (all_gens m) = Inr s"
    by blast
  from tech_rows(2)[OF s i] r assms(2) show ?thesis
    by simp
qed

theorem cluster_not_convertible_witness:
  "rows (all_gens example_bad_memory) ! 1 \<in> set (rows (all_gens example_bad_memory)) \<and>
   cell_of (rows (all_gens example_bad_memory) ! 1) ''cluster'' = NaN \<and>
   py_int (cell_of (rows (all_gens example_bad_memory) ! 1) ''cluster'') = Inl ValueError \<and>
   set_tech (all_gens example_bad_memory) = Inl ValueError \<and>
   post_processing [2025, 2030] example_bad_memory = (Some ValueError, example_bad_memory) \<and>
   ''tech'' \<notin> set (columns (all_gens example_bad_memory)) \<and>
   rows (all_gens (example_text_memory ''1.5'')) ! 1
     \<in> set (rows (all_gens (example_text_memory ''1.5''))) \<and>
   cell_of (rows (all_gens (example_text_memory ''1.5'')) ! 1) ''cluster'' = Str ''1.5'' \<and>
   py_int (Str ''1.5'') = Inl ValueError \<and>
   set_tech (all_gens (example_text_memory ''1.5'')) = Inl ValueError \<and>
   post_processing [2025, 2030] (example_text_memory ''1.5'') =
     (Some ValueError, example_text_memory ''1.5'') \<and>
   ''tech'' \<notin> set (columns (all_gens (example_text_memory ''1.5''))) \<and>
   cell_of (rows (all_gens (example_text_memory [CHR 0x1C, CHR ''7''])) ! 1) ''cluster'' =
     Str [CHR 0x1C, CHR ''7''] \<and>
   py_int (Str [CHR 0x1C, CHR ''7'']) = Inl ValueError \<and>
   post_processing [2025, 2030] (example_text_memory [CHR 0x1C, CHR ''7'']) =
     (Some ValueError, example_text_memory [CHR 0x1C, CHR ''7'']) \<and>
   py_int (Str '' 12 '') = Inr 12 \<and>
   set_tech (example_text_cluster '' 12 '') = Inr example_text_tech"
proof -
  let ?m = "example_bad_memory"
  let ?t = "example_text_memory ''1.5''"
  let ?u = "example_text_memory [CHR 0x1C, CHR ''7'']"
  have r: "rows (all_gens ?m) ! 1 \<in> set (rows (all_gens ?m))"
    by (simp add: example_bad_memory_def example_bad_cluster_def)
  have c: "cell_of (rows (all_gens ?m) ! 1) ''cluster'' = NaN"
    by (simp add: example_bad_memory_def example_bad_cluster_def cell_of_def)
  have e: "py_int (cell_of (rows (all_gens ?m) ! 1) ''cluster'') = Inl ValueError"
    unfolding c by simp
  have s: "set_tech (all_gens ?m) = Inl ValueError"
    by (simp add: example_bad_memory_def example_bad_cluster_def pandas_defs)
  have n: "''tech'' \<notin> set (columns (all_gens ?m))"
    by (simp add: example_bad_memory_def example_bad_cluster_def)
  from cluster_not_convertible[OF r e, of "[2025, 2030]"] s
  have p: "post_processing [2025, 2030] ?m = (Some ValueError, ?m)"
    by auto
  have rt: "rows (all_gens ?t) ! 1 \<in> set (rows (all_gens ?t))"
    by (simp add: example_text_memory_def example_text_cluster_def)
  have ct: "cell_of (rows (all_gens ?t) ! 1) ''cluster'' = Str ''1.5''"
    by (simp add: example_text_memory_def example_text_cluster_def cell_of_def)
  have it: "py_int (Str ''1.5'') = Inl ValueError"
    by (simp add: int_defs)
  have et: "py_int (cell_of (rows (all_gens ?t) ! 1) ''cluster'') = Inl ValueError"
    unfolding ct by (rule it)
  have st: "set_tech (all_gens ?t) = Inl ValueError"
    by (simp add: example_text_memory_def example_text_cluster_def pandas_defs int_defs)
  have nt: "''tech'' \<notin> set (columns (all_gens ?t))"
    by (simp add: example_text_memory_def example_text_cluster_def)
  from cluster_not_convertible[OF rt et, of "[2025, 2030]"] st
  have pt: "post_processing [2025, 2030] ?t = (Some ValueError, ?t)"
    by auto
  have ru: "rows (all_gens ?u) ! 1 \<in> set (rows (all_gens ?u))"
    by (simp add: example_text_memory_def example_text_cluster_def)
  have cu: "cell_of (rows (all_gens ?u) ! 1) ''cluster'' = Str [CHR 0x1C, CHR ''7'']"
    by (simp add: example_text_memory_def example_text_cluster_def cell_of_def)
  have iu: "py_int (Str [CHR 0x1C, CHR ''7'']) = Inl ValueError"
    by (simp add: int_defs)
  have eu: "py_int (cell_of (rows (all_gens ?u) ! 1) ''cluster'') = Inl ValueError"
    unfolding cu by (rule iu)
  have su: "set_tech (all_gens ?u) = Inl ValueError"
    by (simp add: example_text_memory_def example_text_cluster_def pandas_defs int_defs)
  from cluster_not_convertible[OF ru eu, of "[2025, 2030]"] su
  have pu: "post_processing [2025, 2030] ?u = (Some ValueError, ?u)"
    by auto
  have ok: "py_int (Str '' 12 '') = Inr 12"
    by (simp add: int_defs)
  have sk: "set_tech (example_text_cluster '' 12 '') = Inr example_text_tech"
    by (simp add: example_text_cluster_def example_text_tech_def pandas_defs int_defs)
  show ?thesis
    by (intro conjI r c e s p n rt ct it st pt nt cu iu pu ok sk)
qed

section \<open>The recomputing and the reloading cell\<close>



text \<open>
  C6. In a recomputing run that completes with more than one region
  aggregation, the transmission table is the result of the aggregation
  service passed through the distance, line-loss, reinforcement-cost and
  max-reinforcement computations, each called once and in this order, and the
  transmission file holds this table.
\<close>

theorem transmission_pipeline:
  assumes "load_tables sv inp w = (Inr m, w')" and "run_new inp = 1"
    and "1 < length (region_aggregations (settings_of inp))"
  shows "\<exists>t0 g t1 t2 t3 t4.
           agg_transmission_constraints sv (settings_of inp) = Inr t0 \<and>
           load_ipm_shapefile sv (settings_of inp) = Inr g \<and>
           transmission_line_distance sv t0 g (settings_of inp) = Inr t1 \<and>
           network_line_loss sv t1 (settings_of inp) = Inr t2 \<and>
           network_reinforcement_cost sv t2 (settings_of inp) = Inr t3 \<and>
           network_max_reinforcement sv t3 (settings_of inp) = Inr t4 \<and>
           transmission m = Some t4 \<and>
           files w' (file_prefix_of (settings_path inp) @ ''transmission.csv'') =
             Some (csv_text sv (columns t4, rows t4)) \<and>
           filter (\<lambda>e. e \<in> set (transmission_events (file_prefix_of (settings_path inp))))
             (drop (length (trace w)) (trace w')) =
             transmission_events (file_prefix_of (settings_path inp))"
proof -
  from load_tables_fresh[OF assms(1,2)] obtain start_year where
    run: "run_new_branch sv (settings_of inp) (scenario_settings inp) (scenario inp)
         (all_periods_of inp) start_year (file_prefix_of (settings_path inp)) w = (Inr m, w')"
    by blast
  from run_new_branch_Inr(3)[OF run assms(3)] obtain t0 g t1 t2 t3 t4 where
    chain: "agg_transmission_constraints sv (settings_of inp) = Inr t0"
      "load_ipm_shapefile sv (settings_of inp) = Inr g"
      "transmission_line_distance sv t0 g (settings_of inp) = Inr t1"
      "network_line_loss sv t1 (settings_of inp) = Inr t2"
      "network_reinforcement_cost sv t2 (settings_of inp) = Inr t3"
      "network_max_reinforcement sv t3 (settings_of inp) = Inr t4" and
    t4: "transmission m = Some t4"
    by blast
  have "files w' (file_prefix_of (settings_path inp) @ ''transmission.csv'') =
      Some (csv_text sv (columns t4, rows t4))"
    using run_new_branch_Inr(6)[OF run] t4 by (simp add: files_written_lookup)
  moreover have "filter (\<lambda>e. e \<in> set (transmission_events (file_prefix_of (settings_path inp))))
      (drop (length (trace w)) (trace w')) =
      transmission_events (file_prefix_of (settings_path inp))"
    using run_new_branch_Inr(5)[OF run] assms(3) by (simp add: filter_fresh_events)
  ultimately show ?thesis
    using chain t4 by blast
qed

theorem transmission_pipeline_witness:
  "load_tables example_services example_inputs example_world = (Inr example_fresh, example_disk) \<and>
   run_new example_inputs = 1 \<and>
   1 < length (region_aggregations (settings_of example_inputs)) \<and>
   transmission example_fresh = Some example_transmission \<and>
   files example_disk ''US_National/US_N_settings_transmission.csv'' =
     Some (columns example_transmission, rows example_transmission) \<and>
   filter (\<lambda>e. e \<in> set (transmission_events ''US_National/US_N_settings_'')) (trace example_disk) =
     transmission_events ''US_National/US_N_settings_''"
proof -
  have t: "transmission example_fresh = Some example_transmission"
    by (simp add: example_fresh_def)
  have csv: "csv_text example_services = (\<lambda>x. x)"
    by (simp add: example_services_def)
  from transmission_pipeline[OF example_fresh_run example_facts(1,2)] t
  have "files example_disk (file_prefix_of (settings_path example_inputs) @ ''transmission.csv'') =
      Some (csv_text example_services (columns example_transmission, rows example_transmission))"
    and "filter (\<lambda>e. e \<in> set (transmission_events (file_prefix_of (settings_path example_inputs))))
      (drop (length (trace example_world)) (trace example_disk)) =
      transmission_events (file_prefix_of (settings_path example_inputs))"
    by auto
  then have "files example_disk ''US_National/US_N_settings_transmission.csv'' =
      Some (columns example_transmission, rows example_transmission)"
    and "filter (\<lambda>e. e \<in> set (transmission_events ''US_National/US_N_settings_''))
      (trace example_disk) = transmission_events ''US_National/US_N_settings_''"
    by (simp_all add: example_prefix csv example_facts(3))
  with example_fresh_run example_facts(1,2) t show ?thesis
    by blast
qed

text \<open>
  C2. A recomputing run that completes writes the transmission file if and only
  if the settings hold more than one region aggregation. A run with at most
  one region aggregation, whatever its cache flag and its outcome, writes no
  transmission file and calls no transmission service. A reloading run writes
  no file at all.
\<close>

theorem transmission_csv_written:
  assumes "load_tables sv inp w = (r, w')"
  shows "\<exists>evs. trace w' = trace w @ evs \<and>
           (length (region_aggregations (settings_of inp)) \<le> 1 \<longrightarrow>
              list_all (\<lambda>e. e \<notin> set (transmission_events (file_prefix_of (settings_path inp))))
                evs) \<and>
           (run_new inp \<noteq> 1 \<longrightarrow> list_all (\<lambda>e. \<not> is_write e) evs) \<and>
           (run_new inp = 1 \<and> \<not> isl r \<longrightarrow>
              (ToCsv (file_prefix_of (settings_path inp) @ ''transmission.csv'') \<in> set evs \<longleftrightarrow>
               1 < length (region_aggregations (settings_of inp))))"
proof -
  from emits_trace[OF emits_load_tables_True, of sv inp w] assms
  obtain evs where evs: "trace w' = trace w @ evs"
    by auto
  then have tr: "trace (snd (load_tables sv inp w)) = trace w @ evs"
    using assms by simp
  have "list_all (\<lambda>e. e \<notin> set (transmission_events (file_prefix_of (settings_path inp)))) evs"
    if "length (region_aggregations (settings_of inp)) \<le> 1"
    using emits_unique[OF emits_load_tables_no_transmission[OF that] tr] .
  moreover have "list_all (\<lambda>e. \<not> is_write e) evs" if "run_new inp \<noteq> 1"
    using emits_unique[OF emits_load_tables_no_write[OF that] tr] .
  moreover have "ToCsv (file_prefix_of (settings_path inp) @ ''transmission.csv'') \<in> set evs \<longleftrightarrow>
      1 < length (region_aggregations (settings_of inp))"
    if "run_new inp = 1 \<and> \<not> isl r"
  proof -
    from that assms obtain m where m: "load_tables sv inp w = (Inr m, w')"
      by (cases r) auto
    from load_tables_fresh[OF m] that obtain start_year where
      "run_new_branch sv (settings_of inp) (scenario_settings inp) (scenario inp)
         (all_periods_of inp) start_year (file_prefix_of (settings_path inp)) w = (Inr m, w')"
      by blast
    from run_new_branch_Inr(5)[OF this] evs show ?thesis
      by (simp add: transmission_csv_in_fresh_events)
  qed
  ultimately show ?thesis
    using evs by blast
qed

theorem transmission_csv_written_witness:
  "run_new example_inputs = 1 \<and>
   \<not> isl (fst (load_tables example_services example_inputs example_world)) \<and>
   1 < length (region_aggregations (settings_of example_inputs)) \<and>
   ToCsv ''US_National/US_N_settings_transmission.csv'' \<in> set (trace example_disk) \<and>
   length (region_aggregations (settings_of example_inputs_one)) \<le> 1 \<and>
   ToCsv ''US_National/US_N_settings_transmission.csv''
     \<notin> set (trace (snd (load_tables example_services example_inputs_one example_world))) \<and>
   Call AggTransmissionConstraints
     \<notin> set (trace (snd (load_tables example_services example_inputs_one example_world))) \<and>
   run_new example_inputs_reuse \<noteq> 1 \<and>
   filter is_write (drop (length (trace example_disk))
     (trace (snd (load_tables example_services example_inputs_reuse example_disk)))) = []"
proof -
  have ok: "\<not> isl (fst (load_tables example_services example_inputs example_world))"
    by (simp add: example_fresh_run)
  have nisl: "\<not> isl (Inr example_fresh :: error + memory)"
    by simp
  from transmission_csv_written[OF example_fresh_run] obtain evs where
    evs: "trace example_disk = trace example_world @ evs" and
    iff: "run_new example_inputs = 1 \<and> \<not> isl (Inr example_fresh :: error + memory) \<longrightarrow>
       (ToCsv (file_prefix_of (settings_path example_inputs) @ ''transmission.csv'') \<in> set evs \<longleftrightarrow>
        1 < length (region_aggregations (settings_of example_inputs)))"
    by blast
  from iff nisl example_facts(1,2)
  have "ToCsv (file_prefix_of (settings_path example_inputs) @ ''transmission.csv'') \<in> set evs"
    by blast
  moreover have "evs = trace example_disk"
    using evs by (simp add: example_facts(3))
  ultimately
  have a: "ToCsv ''US_National/US_N_settings_transmission.csv'' \<in> set (trace example_disk)"
    by (simp add: example_prefix)
  let ?one = "load_tables example_services example_inputs_one example_world"
  have "?one = (fst ?one, snd ?one)"
    by simp
  from transmission_csv_written[OF this] obtain evs where
    evs1: "trace (snd ?one) = trace example_world @ evs" and
    imp: "length (region_aggregations (settings_of example_inputs_one)) \<le> 1 \<longrightarrow>
       list_all (\<lambda>e. e \<notin> set (transmission_events
         (file_prefix_of (settings_path example_inputs_one)))) evs"
    by blast
  from imp example_facts(4)
  have "list_all (\<lambda>e. e \<notin> set (transmission_events
         (file_prefix_of (settings_path example_inputs_one)))) evs"
    by blast
  moreover have "evs = trace (snd ?one)"
    using evs1 by (simp add: example_facts(3))
  ultimately have "list_all (\<lambda>e. e \<notin> set (transmission_events ''US_National/US_N_settings_''))
      (trace (snd ?one))"
    by (simp add: example_facts(5) example_prefix)
  then have b: "ToCsv ''US_National/US_N_settings_transmission.csv'' \<notin> set (trace (snd ?one))"
    "Call AggTransmissionConstraints \<notin> set (trace (snd ?one))"
    by (auto simp: list_all_iff transmission_events_def)
  let ?reuse = "load_tables example_services example_inputs_reuse example_disk"
  have flag: "run_new example_inputs_reuse \<noteq> 1"
    by (simp add: example_inputs_reuse_def example_inputs_def)
  have "?reuse = (fst ?reuse, snd ?reuse)"
    by simp
  from transmission_csv_written[OF this] obtain evs where
    evs2: "trace (snd ?reuse) = trace example_disk @ evs" and
    imp2: "run_new example_inputs_reuse \<noteq> 1 \<longrightarrow> list_all (\<lambda>e. \<not> is_write e) evs"
    by blast
  from imp2 flag have "list_all (\<lambda>e. \<not> is_write e) evs"
    by blast
  then have "filter is_write evs = []"
    by (simp add: list_all_iff filter_empty_conv)
  moreover have "drop (length (trace example_disk)) (trace (snd ?reuse)) = evs"
    using evs2 by simp
  ultimately have c: "filter is_write (drop (length (trace example_disk)) (trace (snd ?reuse))) = []"
    by simp
  from a b c flag ok example_facts show ?thesis
    by blast
qed

text \<open>
  A reloading run over the files of the example, with two region aggregations:
  it completes, reads five files and writes none.
\<close>

theorem transmission_csv_written_counterexample:
  "run_new example_inputs_reuse \<noteq> 1 \<and>
   1 < length (region_aggregations (settings_of example_inputs_reuse)) \<and>
   fst (load_tables example_services example_inputs_reuse example_disk) = Inr example_reloaded \<and>
   drop (length (trace example_disk))
     (trace (snd (load_tables example_services example_inputs_reuse example_disk))) =
     [ReadCsv ''US_National/US_N_settings_reduced_load_profile.csv'',
      ReadCsv ''US_National/US_N_settings_reduced_resource_profile.csv'',
      ReadCsv ''US_National/US_N_settings_all_gens.csv'',
      ReadCsv ''US_National/US_N_settings_new_gen.csv'',
      ReadCsv ''US_National/US_N_settings_transmission.csv''] \<and>
   ToCsv ''US_National/US_N_settings_transmission.csv''
     \<notin> set (drop (length (trace example_disk))
           (trace (snd (load_tables example_services example_inputs_reuse example_disk))))"
proof -
  have "run_new example_inputs_reuse \<noteq> 1"
    "1 < length (region_aggregations (settings_of example_inputs_reuse))"
    by (simp_all add: example_inputs_reuse_def example_inputs_def example_settings_def)
  moreover have "drop (length (trace example_disk))
     (trace (snd (load_tables example_services example_inputs_reuse example_disk))) =
     [ReadCsv ''US_National/US_N_settings_reduced_load_profile.csv'',
      ReadCsv ''US_National/US_N_settings_reduced_resource_profile.csv'',
      ReadCsv ''US_National/US_N_settings_all_gens.csv'',
      ReadCsv ''US_National/US_N_settings_new_gen.csv'',
      ReadCsv ''US_National/US_N_settings_transmission.csv'']"
    by (simp add: example_reuse_run(2) reload_events_def)
  ultimately show ?thesis
    using example_reuse_run(1) by simp
qed

text \<open>
  C3. When a recomputing run has completed and pandas reads back from each file
  the columns and rows written to it, a reloading run over these files
  completes with the same tables, row for row and column for column, their
  rows labelled 0, 1, 2, ... anew (the files are written without the index).
\<close>

theorem reload_matches_fresh:
  assumes "load_tables sv inp w = (Inr m, w1)" and "run_new inp = 1" and "flag \<noteq> 1"
    and "list_all (csv_lossless sv) (written_tables m)"
  shows "\<exists>w2. load_tables sv (inp\<lparr>run_new := flag\<rparr>) w1 = (Inr (reloaded m), w2)"
  using load_tables_reload[OF assms] by blast

theorem reload_matches_fresh_witness:
  "load_tables example_services example_inputs example_world = (Inr example_fresh, example_disk) \<and>
   run_new example_inputs = 1 \<and> (0::int) \<noteq> 1 \<and>
   list_all (csv_lossless example_services) (written_tables example_fresh) \<and>
   fst (load_tables example_services (example_inputs\<lparr>run_new := 0\<rparr>) example_disk) =
     Inr (reloaded example_fresh)"
proof -
  have flag: "(0::int) \<noteq> 1" by simp
  from reload_matches_fresh[OF example_fresh_run example_facts(1) flag example_lossless]
  have "fst (load_tables example_services (example_inputs\<lparr>run_new := 0\<rparr>) example_disk) =
     Inr (reloaded example_fresh)"
    by auto
  with example_fresh_run example_facts(1) flag example_lossless show ?thesis
    by blast
qed

text \<open>
  In the example the accumulated new-generator table has the index labels 0, 0
  after the recomputing run and 0, 1 after the reloading run.
\<close>

theorem reload_matches_fresh_counterexample:
  "fst (load_tables example_services example_inputs example_world) = Inr example_fresh \<and>
   fst (load_tables example_services example_inputs_reuse example_disk) = Inr example_reloaded \<and>
   example_disk = snd (load_tables example_services example_inputs example_world) \<and>
   index (new_gen example_fresh) = [0, 0] \<and>
   index (new_gen example_reloaded) = [0, 1] \<and>
   new_gen example_reloaded \<noteq> new_gen example_fresh"
proof -
  have idx: "index (new_gen example_fresh) = [0, 0]" "index (new_gen example_reloaded) = [0, 1]"
    by (simp_all add: example_fresh_def example_reloaded_def example_new_gen_later_def)
  then have ne: "new_gen example_reloaded \<noteq> new_gen example_fresh"
    by auto
  have fresh: "fst (load_tables example_services example_inputs example_world) = Inr example_fresh"
    using example_fresh_run by simp
  have disk: "example_disk = snd (load_tables example_services example_inputs example_world)"
    by (simp add: example_disk_def)
  from fresh example_reuse_run(1) disk idx ne show ?thesis
    by blast
qed

section \<open>Output files\<close>

text \<open>
  C8. For a settings file whose path ends in \<^verbatim>\<open>.yml\<close> and holds \<^verbatim>\<open>.yml\<close> nowhere
  else, the five output paths are the path of the settings file with its
  \<^verbatim>\<open>.yml\<close> replaced by \<^verbatim>\<open>_transmission.csv\<close>, \<^verbatim>\<open>_reduced_load_profile.csv\<close>,
  \<^verbatim>\<open>_reduced_resource_profile.csv\<close>, \<^verbatim>\<open>_all_gens.csv\<close> and \<^verbatim>\<open>_new_gen.csv\<close>, in
  the folder of the settings file, and a recomputing run that completes writes
  exactly these files (the transmission file when there is more than one region
  aggregation).
\<close>

theorem output_files:
  assumes "\<not> contains (folder @ ''/'' @ stem) ''.yml''"
    and "settings_path inp = folder @ ''/'' @ stem @ ''.yml''"
    and "load_tables sv inp w = (Inr m, w')" and "run_new inp = 1"
  shows "map (\<lambda>name. file_prefix_of (settings_path inp) @ name)
           [''transmission.csv'', ''reduced_load_profile.csv'',
            ''reduced_resource_profile.csv'', ''all_gens.csv'', ''new_gen.csv''] =
         [folder @ ''/'' @ stem @ ''_transmission.csv'',
          folder @ ''/'' @ stem @ ''_reduced_load_profile.csv'',
          folder @ ''/'' @ stem @ ''_reduced_resource_profile.csv'',
          folder @ ''/'' @ stem @ ''_all_gens.csv'',
          folder @ ''/'' @ stem @ ''_new_gen.csv''] \<and>
         filter is_write (drop (length (trace w)) (trace w')) =
           map (\<lambda>name. ToCsv (folder @ ''/'' @ stem @ name))
             ((if 1 < length (region_aggregations (settings_of inp))
               then [''_transmission.csv''] else []) @
              [''_reduced_load_profile.csv'', ''_reduced_resource_profile.csv'',
               ''_all_gens.csv'', ''_new_gen.csv''])"
proof -
  have prefix: "file_prefix_of (settings_path inp) = folder @ ''/'' @ stem @ ''_''"
    using py_replace_yml_suffix[OF assms(1)] by (simp add: file_prefix_of_def assms(2))
  from load_tables_fresh[OF assms(3,4)] obtain start_year where
    "run_new_branch sv (settings_of inp) (scenario_settings inp) (scenario inp)
       (all_periods_of inp) start_year (file_prefix_of (settings_path inp)) w = (Inr m, w')"
    by blast
  from run_new_branch_Inr(5)[OF this]
  have "filter is_write (drop (length (trace w)) (trace w')) =
      filter is_write (fresh_events (length (drop 1 (all_periods_of inp)))
        (1 < length (region_aggregations (settings_of inp))) (folder @ ''/'' @ stem @ ''_''))"
    by (simp add: prefix)
  then show ?thesis
    by (simp add: prefix filter_is_write_fresh_events)
qed

theorem output_files_witness:
  "\<not> contains (''US_National'' @ ''/'' @ ''US_N_settings'') ''.yml'' \<and>
   settings_path example_inputs = ''US_National'' @ ''/'' @ ''US_N_settings'' @ ''.yml'' \<and>
   load_tables example_services example_inputs example_world = (Inr example_fresh, example_disk) \<and>
   run_new example_inputs = 1 \<and>
   file_prefix_of (settings_path example_inputs) @ ''all_gens.csv'' =
     ''US_National/US_N_settings_all_gens.csv'' \<and>
   filter is_write (trace example_disk) =
     [ToCsv ''US_National/US_N_settings_transmission.csv'',
      ToCsv ''US_National/US_N_settings_reduced_load_profile.csv'',
      ToCsv ''US_National/US_N_settings_reduced_resource_profile.csv'',
      ToCsv ''US_National/US_N_settings_all_gens.csv'',
      ToCsv ''US_National/US_N_settings_new_gen.csv'']"
proof -
  have h: "\<not> contains (''US_National'' @ ''/'' @ ''US_N_settings'') ''.yml''"
    by (simp add: starts_with_def)
  have p: "settings_path example_inputs = ''US_National'' @ ''/'' @ ''US_N_settings'' @ ''.yml''"
    by (simp add: example_inputs_def)
  from output_files[OF h p example_fresh_run example_facts(1)]
  have "file_prefix_of (settings_path example_inputs) @ ''all_gens.csv'' =
      ''US_National'' @ ''/'' @ ''US_N_settings'' @ ''_all_gens.csv''"
    and "filter is_write (drop (length (trace example_world)) (trace example_disk)) =
      map (\<lambda>name. ToCsv (''US_National'' @ ''/'' @ ''US_N_settings'' @ name))
        ((if 1 < length (region_aggregations (settings_of example_inputs))
          then [''_transmission.csv''] else []) @
         [''_reduced_load_profile.csv'', ''_reduced_resource_profile.csv'',
          ''_all_gens.csv'', ''_new_gen.csv''])"
    by simp_all
  then have "file_prefix_of (settings_path example_inputs) @ ''all_gens.csv'' =
      ''US_National/US_N_settings_all_gens.csv''"
    and "filter is_write (trace example_disk) =
     [ToCsv ''US_National/US_N_settings_transmission.csv'',
      ToCsv ''US_National/US_N_settings_reduced_load_profile.csv'',
      ToCsv ''US_National/US_N_settings_reduced_resource_profile.csv'',
      ToCsv ''US_National/US_N_settings_all_gens.csv'',
      ToCsv ''US_National/US_N_settings_new_gen.csv'']"
    using example_facts(2,3) by simp_all
  with h p example_fresh_run example_facts(1) show ?thesis
    by blast
qed

text \<open>
  A settings file named \<^verbatim>\<open>settings.yaml\<close> keeps its extension in the output
  names, and a \<^verbatim>\<open>.yml\<close> in a folder name is rewritten too.
\<close>

theorem output_files_counterexample:
  "file_prefix_of ''/home/u/US_National/settings.yaml'' @ ''all_gens.csv'' =
     ''/home/u/US_National/settings.yamlall_gens.csv'' \<and>
   file_prefix_of ''/home/u/US_National/settings.yaml'' @ ''all_gens.csv'' \<noteq>
     ''/home/u/US_National/settings_all_gens.csv'' \<and>
   file_prefix_of ''/home/u.yml/run/settings.yml'' @ ''all_gens.csv'' =
     ''/home/u_/run/settings_all_gens.csv'' \<and>
   file_prefix_of ''/home/u.yml/run/settings.yml'' @ ''all_gens.csv'' \<noteq>
     ''/home/u.yml/run/settings_all_gens.csv''"
  by (simp add: file_prefix_of_def starts_with_def)

end
